theory Spec2Isabelle
  imports Complex_Main "HOL-Library.Word" "HOL-Library.Char_ord" "HOL-Library.List_Lexorder"
    "HOL-Library.Signed_Division"
begin

section \<open>Data model of tor-nodes.go\<close>

text \<open>
  The struct \<^verbatim>\<open>TorRelayDetails\<close>, field by field. A Go string is a sequence of bytes,
  as \<^typ>\<open>string\<close> is. A slice \<^verbatim>\<open>[]string\<close> is \<open>None\<close> when it is nil and \<open>Some xs\<close>
  otherwise: \<^verbatim>\<open>reflect.DeepEqual\<close> and \<^verbatim>\<open>json.Marshal\<close> both tell a nil slice from an
  empty one. An \<^verbatim>\<open>interface{}\<close> field is \<open>None\<close> when it is nil and \<open>Some v\<close> when it
  holds a dynamic value \<open>v\<close>; the type \<open>'j\<close> of the decoded JSON values is a parameter,
  and equality on \<open>'j\<close> stands for \<^verbatim>\<open>reflect.DeepEqual\<close> on them. A \<^verbatim>\<open>float64\<close> field
  holds the real number it denotes: the JSON decoder yields finite values only, on which
  Go's \<^verbatim>\<open>==\<close> is equality of the numbers denoted. A \<^verbatim>\<open>uint64\<close> is a 64-bit word.
\<close>

record 'j TorRelayDetails =
  Nickname :: string
  Fingerprint :: string
  Or_addresses :: "string list option"
  Exit_addresses :: "string list option"
  Dir_address :: string
  Last_seen :: string
  Last_changed_address_or_port :: string
  First_seen :: string
  Running :: bool
  Hibernating :: bool
  Flags :: "string list option"
  Country :: string
  Country_name :: string
  Region_name :: string
  City_name :: string
  Latitude :: real
  Longitude :: real
  As :: string
  As_number :: string
  As_name :: string
  Consensus_weight :: "64 word"
  Host_name :: string
  Verified_host_names :: "string list option"
  Unverified_host_names :: "string list option"
  Last_restarted :: string
  Bandwidth_rate :: "64 word"
  Bandwidth_burst :: "64 word"
  Observed_bandwidth :: "64 word"
  Advertised_bandwidth :: "64 word"
  Exit_policy :: "string list option"
  Exit_policy_summary :: "'j option"
  Exit_policy_v6_summary :: "'j option"
  Contact :: string
  Platform :: string
  Version :: string
  Recommended_version :: bool
  Version_status :: string
  Effective_family :: "string list option"
  Alleged_family :: "string list option"
  Indirect_family :: "string list option"
  Consensus_weight_fraction :: real
  Guard_probability :: real
  Middle_probability :: real
  Exit_probability :: real
  Measured :: bool
  Unreachable_or_addresses :: "string list option"

text \<open>The zero value of the struct: what \<^verbatim>\<open>var r TorRelayDetails\<close> holds.\<close>

definition zeroRelay :: "'j TorRelayDetails" where
  "zeroRelay = \<lparr>Nickname = [], Fingerprint = [], Or_addresses = None, Exit_addresses = None,
     Dir_address = [], Last_seen = [], Last_changed_address_or_port = [], First_seen = [],
     Running = False, Hibernating = False, Flags = None, Country = [], Country_name = [],
     Region_name = [], City_name = [], Latitude = 0, Longitude = 0, As = [], As_number = [],
     As_name = [], Consensus_weight = 0, Host_name = [], Verified_host_names = None,
     Unverified_host_names = None, Last_restarted = [], Bandwidth_rate = 0,
     Bandwidth_burst = 0, Observed_bandwidth = 0, Advertised_bandwidth = 0,
     Exit_policy = None, Exit_policy_summary = None, Exit_policy_v6_summary = None,
     Contact = [], Platform = [], Version = [], Recommended_version = False,
     Version_status = [], Effective_family = None, Alleged_family = None,
     Indirect_family = None, Consensus_weight_fraction = 0, Guard_probability = 0,
     Middle_probability = 0, Exit_probability = 0, Measured = False,
     Unreachable_or_addresses = None\<rparr>"

text \<open>
  A \<^verbatim>\<open>map[string]string\<close> is a partial map; indexing it with a missing key, or indexing
  the nil map, yields the empty string. The Latest-State Cache \<^verbatim>\<open>g_db.lrd\<close> is a
  \<^verbatim>\<open>map[string]map[string]string\<close>; indexing it with a missing fingerprint yields the
  nil map.
\<close>

type_synonym lrd_entry = "string \<rightharpoonup> string"

type_synonym lrd_cache = "string \<rightharpoonup> lrd_entry"

definition go_index :: "lrd_entry \<Rightarrow> string \<Rightarrow> string" where
  "go_index m k = (case m k of None \<Rightarrow> [] | Some v \<Rightarrow> v)"

definition lrd_index :: "lrd_cache \<Rightarrow> string \<Rightarrow> lrd_entry" where
  "lrd_index c fp = (case c fp of None \<Rightarrow> Map.empty | Some m \<Rightarrow> m)"

section \<open>The Go standard library used by the change detector\<close>

text \<open>
  What the repository takes from the standard library and this development does not
  compute is a parameter: the Unicode case table beyond ASCII, \<^verbatim>\<open>strings.TrimSpace\<close>,
  the JSON encoding of one string, of one decoded JSON value (the empty string when
  \<^verbatim>\<open>json.Marshal\<close> returns an error, which the callers ignore) and of the whole relay
  struct.
\<close>

record 'j golib =
  unicode_To_LowerCase :: "nat \<Rightarrow> nat"
  strings_TrimSpace :: "string \<Rightarrow> string"
  json_string :: "string \<Rightarrow> string"
  json_value :: "'j \<Rightarrow> string"
  json_relay :: "'j TorRelayDetails \<Rightarrow> string"

subsection \<open>strings.ToLower\<close>

text \<open>
  \<^verbatim>\<open>strings.ToLower(s)\<close> is \<^verbatim>\<open>strings.Map(unicode.ToLower, s)\<close> (its fast path for
  ASCII-only strings computes the same string): the bytes are decoded as UTF-8 into
  runes, an invalid byte giving \<^verbatim>\<open>utf8.RuneError\<close> and consuming one byte, each rune is
  mapped, and the results are encoded again. Bytes and runes are natural numbers here;
  a mask with \<open>2^k - 1\<close> is \<open>mod 2^k\<close>, a shift is a multiplication or a division.
\<close>

definition RuneError :: nat where
  "RuneError = 0xFFFD"

text \<open>The table \<^verbatim>\<open>first\<close> with \<^verbatim>\<open>acceptRanges\<close> of package utf8, for a lead byte
  that is not ASCII: the length of the sequence and the range of its second byte.\<close>

definition utf8_first :: "nat \<Rightarrow> (nat \<times> nat \<times> nat) option" where
  "utf8_first s0 =
     (if s0 < 0xC2 then None
      else if s0 \<le> 0xDF then Some (2, 0x80, 0xBF)
      else if s0 = 0xE0 then Some (3, 0xA0, 0xBF)
      else if s0 \<le> 0xEC then Some (3, 0x80, 0xBF)
      else if s0 = 0xED then Some (3, 0x80, 0x9F)
      else if s0 \<le> 0xEF then Some (3, 0x80, 0xBF)
      else if s0 = 0xF0 then Some (4, 0x90, 0xBF)
      else if s0 \<le> 0xF3 then Some (4, 0x80, 0xBF)
      else if s0 = 0xF4 then Some (4, 0x80, 0x8F)
      else None)"

fun utf8_decode :: "nat list \<Rightarrow> nat list" where
  "utf8_decode [] = []"
| "utf8_decode (s0 # s) =
     (if s0 < 0x80 then s0 # utf8_decode s
      else case utf8_first s0 of
        None \<Rightarrow> RuneError # utf8_decode s
      | Some (sz, lo, hi) \<Rightarrow>
          if length (s0 # s) < sz then RuneError # utf8_decode s
          else if s ! 0 < lo \<or> hi < s ! 0 then RuneError # utf8_decode s
          else if sz \<le> 2 then
            ((s0 mod 32) * 64 + (s ! 0) mod 64) # utf8_decode (drop 1 s)
          else if s ! 1 < 0x80 \<or> 0xBF < s ! 1 then RuneError # utf8_decode s
          else if sz \<le> 3 then
            ((s0 mod 16) * 4096 + ((s ! 0) mod 64) * 64 + (s ! 1) mod 64)
              # utf8_decode (drop 2 s)
          else if s ! 2 < 0x80 \<or> 0xBF < s ! 2 then RuneError # utf8_decode s
          else
            ((s0 mod 8) * 262144 + ((s ! 0) mod 64) * 4096 + ((s ! 1) mod 64) * 64
               + (s ! 2) mod 64) # utf8_decode (drop 3 s))"

definition utf8_encode :: "nat \<Rightarrow> nat list" where
  "utf8_encode r =
     (if r \<le> 0x7F then [r]
      else if r \<le> 0x7FF then [0xC0 + r div 64, 0x80 + r mod 64]
      else if r > 0x10FFFF \<or> (0xD800 \<le> r \<and> r \<le> 0xDFFF) then [0xEF, 0xBF, 0xBD]
      else if r \<le> 0xFFFF then
        [0xE0 + r div 4096, 0x80 + (r div 64) mod 64, 0x80 + r mod 64]
      else
        [0xF0 + r div 262144, 0x80 + (r div 4096) mod 64, 0x80 + (r div 64) mod 64,
         0x80 + r mod 64])"

definition strings_Map :: "(nat \<Rightarrow> nat) \<Rightarrow> string \<Rightarrow> string" where
  "strings_Map mapping s =
     map char_of (concat (map (\<lambda>c. utf8_encode (mapping c)) (utf8_decode (map of_char s))))"

definition unicode_ToLower :: "'j golib \<Rightarrow> nat \<Rightarrow> nat" where
  "unicode_ToLower L r =
     (if r \<le> 0x7F then (if 0x41 \<le> r \<and> r \<le> 0x5A then r + 0x20 else r)
      else unicode_To_LowerCase L r)"

definition strings_ToLower :: "'j golib \<Rightarrow> string \<Rightarrow> string" where
  "strings_ToLower L s = strings_Map (unicode_ToLower L) s"

subsection \<open>json.Marshal\<close>

text \<open>
  A nil slice encodes as \<^verbatim>\<open>null\<close>, any other \<^verbatim>\<open>[]string\<close> as its elements' string
  literals between brackets, separated by commas. A nil interface encodes as
  \<^verbatim>\<open>null\<close>.
\<close>

fun join_commas :: "string list \<Rightarrow> string" where
  "join_commas [] = []"
| "join_commas [x] = x"
| "join_commas (x # y # ys) = x @ '','' @ join_commas (y # ys)"

definition json_Marshal_strings :: "'j golib \<Rightarrow> string list option \<Rightarrow> string" where
  "json_Marshal_strings L v =
     (case v of None \<Rightarrow> ''null''
      | Some xs \<Rightarrow> ''['' @ join_commas (map (json_string L) xs) @ '']'')"

definition json_Marshal_any :: "'j golib \<Rightarrow> 'j option \<Rightarrow> string" where
  "json_Marshal_any L v = (case v of None \<Rightarrow> ''null'' | Some x \<Rightarrow> json_value L x)"

section \<open>The change detector: recordsMatch\<close>

text \<open>The function returns the value of its condition; the other branch only prints.\<close>

definition recordsMatch :: "'j golib \<Rightarrow> 'j TorRelayDetails \<Rightarrow> lrd_entry \<Rightarrow> bool" where
  "recordsMatch L relay lrdfp =
     (let js_exitp = json_Marshal_strings L (Exit_policy relay);
          js_exitps = json_Marshal_any L (Exit_policy_summary relay);
          js_exitps6 = json_Marshal_any L (Exit_policy_v6_summary relay)
      in Nickname relay = go_index lrdfp ''Nickname'' \<and>
         Country relay = go_index lrdfp ''Country'' \<and>
         City_name relay = go_index lrdfp ''CityName'' \<and>
         Platform relay = go_index lrdfp ''PlatformName'' \<and>
         Version relay = go_index lrdfp ''VersionName'' \<and>
         strings_ToLower L (Contact relay) = strings_ToLower L (go_index lrdfp ''ContactName'') \<and>
         Last_changed_address_or_port relay = go_index lrdfp ''Last_changed_address_or_port'' \<and>
         First_seen relay = go_index lrdfp ''First_seen'' \<and>
         js_exitp = go_index lrdfp ''ExitPolicy'' \<and>
         js_exitps = go_index lrdfp ''ExitPolicySummary'' \<and>
         js_exitps6 = go_index lrdfp ''ExitPolicyV6Summary'')"

section \<open>The database handle and the globals\<close>

text \<open>
  A run ends early in two ways: \<^verbatim>\<open>log.Fatal\<close> and \<^verbatim>\<open>panic\<close>. Either is a value, with
  its message.
\<close>

datatype error = Fatal string | Panic string

text \<open>The seventeen arguments of \<^verbatim>\<open>g_db.stmtAddTorRelays.Exec\<close>, in their order.\<close>

record TorRelaysRow =
  arg_fpid :: string
  arg_countryid :: string
  arg_regionid :: string
  arg_cityid :: string
  arg_platformid :: string
  arg_versionid :: string
  arg_contactid :: string
  arg_exitp :: string
  arg_exitps :: string
  arg_exitps6 :: string
  arg_nick :: string
  arg_lastChanged :: string
  arg_firstSeen :: string
  arg_RecordTimeInserted :: string
  arg_RecordLastSeen :: string
  arg_jsFlags :: string
  arg_jsRelay :: string

text \<open>
  The type \<^verbatim>\<open>DB\<close> and its methods are declared outside tor-nodes.go. The file reads two
  of its fields, \<^verbatim>\<open>initialized\<close> and \<^verbatim>\<open>lrd\<close>; everything else the handle holds is
  the parameter \<open>'r\<close>. Each method is a parameter too: a function on the handle, free to
  change any part of it, the cache included. A method is taken to return;
  \<^verbatim>\<open>stmtAddTorRelays.Exec\<close> returns an error message or the \<^verbatim>\<open>LastInsertId\<close> of its
  result.
\<close>

record 'r DB =
  initialized :: bool
  lrd :: lrd_cache
  internals :: 'r

record 'r DB_methods =
  value2id :: "string \<Rightarrow> string \<Rightarrow> 'r DB \<Rightarrow> string \<times> 'r DB"
  normalizeCountryID :: "string \<Rightarrow> string \<Rightarrow> 'r DB \<Rightarrow> string \<times> 'r DB"
  stmtAddTorRelays_Exec :: "TorRelaysRow \<Rightarrow> 'r DB \<Rightarrow> (string + int) \<times> 'r DB"
  addToIP :: "string \<Rightarrow> string \<Rightarrow> string \<Rightarrow> string \<Rightarrow> string \<Rightarrow> 'r DB \<Rightarrow> 'r DB"
  updateIfNeededRelayAddressRLS :: "string \<Rightarrow> string \<Rightarrow> string \<Rightarrow> string \<Rightarrow> 'r DB \<Rightarrow> 'r DB"
  updateTorRelayRLS :: "string \<Rightarrow> string \<Rightarrow> 'r DB \<Rightarrow> 'r DB"
  initCaches :: "'r DB \<Rightarrow> 'r DB"
  initCountryNameCache :: "'r DB \<Rightarrow> 'r DB"
  initializeLatestRelayDataCache :: "string \<Rightarrow> 'r DB \<Rightarrow> 'r DB"
  addToTorQueries :: "string \<Rightarrow> string \<Rightarrow> string \<Rightarrow> string \<Rightarrow> 'r DB \<Rightarrow> 'r DB"

text \<open>
  Every call of a method is recorded, with its arguments, in a journal kept beside the
  handle: the journal is what the run asked of the database, in order.
\<close>

datatype db_call =
    Value2id string string
  | NormalizeCountryID string string
  | StmtAddTorRelays TorRelaysRow
  | AddToIP string string string string string
  | UpdateIfNeededRelayAddressRLS string string string string
  | UpdateTorRelayRLS string string
  | InitCaches
  | InitCountryNameCache
  | InitializeLatestRelayDataCache string
  | AddToTorQueries string string string string

text \<open>The fields of \<^verbatim>\<open>TorHistoryConfig\<close> that the functions below read, and the globals.\<close>

record TorHistoryConfig =
  DBServer_Enabled :: bool
  DBServer_ReInitCaches :: int
  Tor_ConsensusURL :: string
  Tor_Filename :: string
  Tor_ConsensusDLT :: string
  Tor_ConsensusDLT_fmt :: string
  Tor_ExtractDLTfromFilename :: bool
  Tor_ExtractDLTfromFilename_regex :: string
  Filter_matchFlags :: "string list"

record 'r globals =
  g_config :: TorHistoryConfig
  g_db :: "'r DB option"
  g_consensusDLTS :: string
  journal :: "db_call list"

text \<open>A function that can end the run returns the error with the globals as they were
  then, or its result.\<close>

type_synonym ('r, 'a) result = "(error \<times> 'r globals) + 'a"

definition andThen :: "'e + 'a \<Rightarrow> ('a \<Rightarrow> 'e + 'b) \<Rightarrow> 'e + 'b" where
  "andThen m f = (case m of Inl e \<Rightarrow> Inl e | Inr a \<Rightarrow> f a)"

fun forEach :: "'a list \<Rightarrow> ('a \<Rightarrow> 's \<Rightarrow> 'e + 's) \<Rightarrow> 's \<Rightarrow> 'e + 's" where
  "forEach [] f s = Inr s"
| "forEach (x # xs) f s = andThen (f x s) (forEach xs f)"

definition invoke ::
  "db_call \<Rightarrow> ('r DB \<Rightarrow> 'a \<times> 'r DB) \<Rightarrow> 'r globals \<Rightarrow> ('r, 'a \<times> 'r globals) result" where
  "invoke ev m g =
     (case g_db g of
        None \<Rightarrow> Inl (Panic ''invalid memory address or nil pointer dereference'', g)
      | Some d \<Rightarrow>
          (case m d of (a, d') \<Rightarrow> Inr (a, g\<lparr>g_db := Some d', journal := journal g @ [ev]\<rparr>)))"

definition invoke_proc ::
  "db_call \<Rightarrow> ('r DB \<Rightarrow> 'r DB) \<Rightarrow> 'r globals \<Rightarrow> ('r, 'r globals) result" where
  "invoke_proc ev m g = andThen (invoke ev (\<lambda>d. ((), m d)) g) (\<lambda>(u, g'). Inr g')"

text \<open>A range loop over a slice runs over no element when the slice is nil.\<close>

definition elems :: "'a list option \<Rightarrow> 'a list" where
  "elems v = (case v of None \<Rightarrow> [] | Some xs \<Rightarrow> xs)"

section \<open>The node filter\<close>

fun needleLoop :: "string list \<Rightarrow> string list \<Rightarrow> bool" where
  "needleLoop [] strs = True"
| "needleLoop (curNeedle # needles) strs =
     (if curNeedle \<in> set strs then needleLoop needles strs else False)"

definition allStringsInSetMatch :: "string list \<Rightarrow> string list option \<Rightarrow> bool" where
  "allStringsInSetMatch needles strs =
     (if length needles = 0 then True else needleLoop needles (elems strs))"

section \<open>Inserting a relay: cleanupRelayStruct, addNewRelayAddresses, addNewTorRelayToDB\<close>

definition cleanupRelayStruct :: "'j TorRelayDetails \<Rightarrow> 'j TorRelayDetails" where
  "cleanupRelayStruct pr =
     pr\<lparr>Nickname := [], Country := [], Country_name := [], Region_name := [],
        City_name := [], Platform := [], Version := [], Contact := [],
        Last_changed_address_or_port := [], First_seen := [], Fingerprint := [],
        Exit_policy := None, Exit_policy_summary := None, Exit_policy_v6_summary := None\<rparr>"

definition addNewRelayAddresses ::
  "'r DB_methods \<Rightarrow> int \<Rightarrow> string \<Rightarrow> string list option \<Rightarrow> string list option \<Rightarrow> string
     \<Rightarrow> 'r globals \<Rightarrow> ('r, 'r globals) result" where
  "addNewRelayAddresses M lastID fpid Or_addrs Exit_addrs Dir_addr g =
     andThen
       (if length (elems Or_addrs) > 0 then
          forEach (elems Or_addrs)
            (\<lambda>or' g. invoke_proc
               (AddToIP ''Or'' fpid (g_consensusDLTS g) (g_consensusDLTS g) or')
               (addToIP M ''Or'' fpid (g_consensusDLTS g) (g_consensusDLTS g) or') g) g
        else Inr g)
       (\<lambda>g. andThen
          (if length (elems Exit_addrs) > 0 then
             forEach (elems Exit_addrs)
               (\<lambda>ex g. invoke_proc
                  (AddToIP ''Ex'' fpid (g_consensusDLTS g) (g_consensusDLTS g) ex)
                  (addToIP M ''Ex'' fpid (g_consensusDLTS g) (g_consensusDLTS g) ex) g) g
           else Inr g)
          (\<lambda>g. if length Dir_addr > 0 then
                 invoke_proc
                   (AddToIP ''Di'' fpid (g_consensusDLTS g) (g_consensusDLTS g) Dir_addr)
                   (addToIP M ''Di'' fpid (g_consensusDLTS g) (g_consensusDLTS g) Dir_addr) g
               else Inr g))"

definition call_value2id ::
  "'r DB_methods \<Rightarrow> string \<Rightarrow> string \<Rightarrow> 'r globals \<Rightarrow> ('r, string \<times> 'r globals) result" where
  "call_value2id M cls text g = invoke (Value2id cls text) (value2id M cls text) g"

definition addNewTorRelayToDB ::
  "'j golib \<Rightarrow> 'r DB_methods \<Rightarrow> 'j TorRelayDetails \<Rightarrow> 'r globals \<Rightarrow> ('r, 'r globals) result" where
  "addNewTorRelayToDB L M relay g =
     andThen (call_value2id M ''fingerprint'' (Fingerprint relay) g) (\<lambda>(fpid, g).
     andThen (invoke (NormalizeCountryID (Country relay) (Country_name relay))
                (normalizeCountryID M (Country relay) (Country_name relay)) g) (\<lambda>(countryid, g).
     andThen (call_value2id M ''region'' (Region_name relay) g) (\<lambda>(regionid, g).
     andThen (call_value2id M ''city'' (City_name relay) g) (\<lambda>(cityid, g).
     andThen (call_value2id M ''platform'' (Platform relay) g) (\<lambda>(platformid, g).
     andThen (call_value2id M ''version'' (Version relay) g) (\<lambda>(versionid, g).
     andThen (call_value2id M ''contact'' (Contact relay) g) (\<lambda>(contactid, g).
     andThen (call_value2id M ''exitp'' (json_Marshal_strings L (Exit_policy relay)) g)
       (\<lambda>(exitp, g).
     andThen (call_value2id M ''exitps'' (json_Marshal_any L (Exit_policy_summary relay)) g)
       (\<lambda>(exitps, g).
     andThen (call_value2id M ''exitps6'' (json_Marshal_any L (Exit_policy_v6_summary relay)) g)
       (\<lambda>(exitps6, g).
     let nick = Nickname relay;
         lastChanged = Last_changed_address_or_port relay;
         firstSeen = First_seen relay;
         relay = cleanupRelayStruct relay;
         jsFlags = json_Marshal_strings L (Flags relay);
         jsRelay = json_relay L relay;
         row = \<lparr>arg_fpid = fpid, arg_countryid = countryid, arg_regionid = regionid,
                arg_cityid = cityid, arg_platformid = platformid, arg_versionid = versionid,
                arg_contactid = contactid, arg_exitp = exitp, arg_exitps = exitps,
                arg_exitps6 = exitps6, arg_nick = nick, arg_lastChanged = lastChanged,
                arg_firstSeen = firstSeen, arg_RecordTimeInserted = g_consensusDLTS g,
                arg_RecordLastSeen = g_consensusDLTS g, arg_jsFlags = jsFlags,
                arg_jsRelay = jsRelay\<rparr>
     in andThen (invoke (StmtAddTorRelays row) (stmtAddTorRelays_Exec M row) g) (\<lambda>(res, g).
          case res of
            Inl err \<Rightarrow> Inl (Panic (''func main: g_db.stmtAddTorRelays.Exec: '' @ err), g)
          | Inr lastID \<Rightarrow>
              addNewRelayAddresses M lastID fpid (Or_addresses relay) (Exit_addresses relay)
                (Dir_address relay) g)))))))))))"

section \<open>Refreshing a matching relay: updateRelayAddressesIfNeeded\<close>

text \<open>Each call reads \<^verbatim>\<open>(*lrd)[fp]["ID_NodeFingerprints"]\<close> from the cache as it is then.\<close>

definition call_updateIfNeededRelayAddressRLS ::
  "'r DB_methods \<Rightarrow> string \<Rightarrow> string \<Rightarrow> string \<Rightarrow> 'r globals \<Rightarrow> ('r, 'r globals) result" where
  "call_updateIfNeededRelayAddressRLS M role fp addr g =
     (case g_db g of
        None \<Rightarrow> Inl (Panic ''invalid memory address or nil pointer dereference'', g)
      | Some d \<Rightarrow>
          (let fpid = go_index (lrd_index (lrd d) fp) ''ID_NodeFingerprints'' in
           invoke_proc (UpdateIfNeededRelayAddressRLS role fpid (g_consensusDLTS g) addr)
             (updateIfNeededRelayAddressRLS M role fpid (g_consensusDLTS g) addr) g))"

definition updateRelayAddressesIfNeeded ::
  "'r DB_methods \<Rightarrow> 'j TorRelayDetails \<Rightarrow> 'r globals \<Rightarrow> ('r, 'r globals) result" where
  "updateRelayAddressesIfNeeded M relay g =
     (let fp = Fingerprint relay in
      andThen
        (if length (elems (Or_addresses relay)) > 0 then
           forEach (elems (Or_addresses relay))
             (\<lambda>or'. call_updateIfNeededRelayAddressRLS M ''Or'' fp or') g
         else Inr g)
        (\<lambda>g. andThen
           (if length (elems (Exit_addresses relay)) > 0 then
              forEach (elems (Exit_addresses relay))
                (\<lambda>ex. call_updateIfNeededRelayAddressRLS M ''Ex'' fp ex) g
            else Inr g)
           (\<lambda>g. if length (Dir_address relay) > 0 then
                  call_updateIfNeededRelayAddressRLS M ''Di'' fp (Dir_address relay) g
                else Inr g)))"

section \<open>Reconciliation: processTorResponse\<close>

text \<open>
  The body of the loop, for one relay of the response; what it prints is left out. The
  loop variable is a copy of the relay, so trimming its contact changes no snapshot.
\<close>

definition call_updateTorRelayRLS ::
  "'r DB_methods \<Rightarrow> string \<Rightarrow> 'r globals \<Rightarrow> ('r, 'r globals) result" where
  "call_updateTorRelayRLS M fp g =
     (case g_db g of
        None \<Rightarrow> Inl (Panic ''invalid memory address or nil pointer dereference'', g)
      | Some d \<Rightarrow>
          (let trid = go_index (lrd_index (lrd d) fp) ''id'' in
           invoke_proc (UpdateTorRelayRLS trid (g_consensusDLTS g))
             (updateTorRelayRLS M trid (g_consensusDLTS g)) g))"

definition processRelay ::
  "'j golib \<Rightarrow> 'r DB_methods \<Rightarrow> 'j TorRelayDetails \<Rightarrow> 'r globals \<Rightarrow> ('r, 'r globals) result" where
  "processRelay L M relay g =
     (if \<not> allStringsInSetMatch (Filter_matchFlags (g_config g)) (Flags relay) then Inr g
      else case g_db g of
        None \<Rightarrow> Inr g
      | Some d \<Rightarrow>
          if \<not> initialized d then Inr g
          else
            let relay = relay\<lparr>Contact := strings_TrimSpace L (Contact relay)\<rparr>;
                fp = Fingerprint relay
            in if recordsMatch L relay (lrd_index (lrd d) fp) then
                 (if g_consensusDLTS g = go_index (lrd_index (lrd d) fp) ''RecordLastSeen''
                  then Inr g
                  else if g_consensusDLTS g < go_index (lrd_index (lrd d) fp) ''RecordLastSeen''
                  then Inr g
                  else andThen (updateRelayAddressesIfNeeded M relay g)
                         (call_updateTorRelayRLS M fp))
               else addNewTorRelayToDB L M relay g)"

definition processTorResponse ::
  "'j golib \<Rightarrow> 'r DB_methods \<Rightarrow> 'j TorRelayDetails list \<Rightarrow> 'r globals \<Rightarrow> ('r, 'r globals) result" where
  "processTorResponse L M relays g = forEach relays (processRelay L M) g"

section \<open>Reading the journal\<close>

text \<open>The rows handed to \<^verbatim>\<open>stmtAddTorRelays.Exec\<close>, in order: the entity rows created.\<close>

definition rows_of :: "db_call list \<Rightarrow> TorRelaysRow list" where
  "rows_of j = concat (map (\<lambda>c. case c of StmtAddTorRelays row \<Rightarrow> [row] | _ \<Rightarrow> []) j)"

text \<open>The globals a call leaves behind, whether it returned or ended the run.\<close>

definition final_globals :: "('r, 'r globals) result \<Rightarrow> 'r globals" where
  "final_globals r = (case r of Inl (e, g) \<Rightarrow> g | Inr g \<Rightarrow> g)"

text \<open>
  A call with the surrogate ids among its arguments blanked. The ids are read from the
  cache or returned by the database while the run goes on; the other arguments come
  from the relay and the download timestamp.
\<close>

fun forget_ids :: "db_call \<Rightarrow> db_call" where
  "forget_ids (AddToIP role fpid ti ls addr) = AddToIP role [] ti ls addr"
| "forget_ids (UpdateIfNeededRelayAddressRLS role fpid dlts addr) =
     UpdateIfNeededRelayAddressRLS role [] dlts addr"
| "forget_ids (UpdateTorRelayRLS trid dlts) = UpdateTorRelayRLS [] dlts"
| "forget_ids c = c"

section \<open>The scenario of the specification\<close>

text \<open>
  The relay \<^verbatim>\<open>{fp: "AAAA", nickname: "n1", country: "us"}\<close> with a contact and one OR
  address, the cache entry of its persisted row, and a database whose methods do
  nothing and return their text argument as its id.
\<close>

definition sampleLib :: "unit golib" where
  "sampleLib = \<lparr>unicode_To_LowerCase = (\<lambda>r. r), strings_TrimSpace = (\<lambda>s. s),
     json_string = (\<lambda>s. s), json_value = (\<lambda>u. ''{}''), json_relay = (\<lambda>r. ''{}'')\<rparr>"

definition sampleDB :: "unit DB_methods" where
  "sampleDB = \<lparr>value2id = (\<lambda>cls text d. (text, d)),
     normalizeCountryID = (\<lambda>c n d. (c, d)),
     stmtAddTorRelays_Exec = (\<lambda>row d. (Inr 1, d)),
     addToIP = (\<lambda>role fpid ti ls addr d. d),
     updateIfNeededRelayAddressRLS = (\<lambda>role fpid dlts addr d. d),
     updateTorRelayRLS = (\<lambda>trid dlts d. d),
     initCaches = (\<lambda>d. d), initCountryNameCache = (\<lambda>d. d),
     initializeLatestRelayDataCache = (\<lambda>dlts d. d),
     addToTorQueries = (\<lambda>v rp bp dlts d. d)\<rparr>"

definition sampleRelay :: "unit TorRelayDetails" where
  "sampleRelay = zeroRelay\<lparr>Fingerprint := ''AAAA'', Nickname := ''n1'', Country := ''us'',
     Contact := ''Op@Example.org'', Or_addresses := Some [''10.0.0.1:9001'']\<rparr>"

definition sampleEntry :: lrd_entry where
  "sampleEntry = [''Nickname'' \<mapsto> ''n1'', ''Country'' \<mapsto> ''us'',
     ''ContactName'' \<mapsto> ''op@example.org'',
     ''ExitPolicy'' \<mapsto> ''null'', ''ExitPolicySummary'' \<mapsto> ''null'',
     ''ExitPolicyV6Summary'' \<mapsto> ''null'', ''RecordLastSeen'' \<mapsto> ''20230101000000'',
     ''id'' \<mapsto> ''1'', ''ID_NodeFingerprints'' \<mapsto> ''7'']"

definition sampleConfig :: TorHistoryConfig where
  "sampleConfig = \<lparr>DBServer_Enabled = True, DBServer_ReInitCaches = 100,
     Tor_ConsensusURL = [], Tor_Filename = [], Tor_ConsensusDLT = [],
     Tor_ConsensusDLT_fmt = [], Tor_ExtractDLTfromFilename = False,
     Tor_ExtractDLTfromFilename_regex = [], Filter_matchFlags = []\<rparr>"

definition sampleDBState :: "unit DB" where
  "sampleDBState = \<lparr>initialized = True, lrd = [''AAAA'' \<mapsto> sampleEntry], internals = ()\<rparr>"

definition sampleGlobals :: "string \<Rightarrow> unit globals" where
  "sampleGlobals dlts = \<lparr>g_config = sampleConfig, g_db = Some sampleDBState,
     g_consensusDLTS = dlts, journal = []\<rparr>"

section \<open>Strings that differ only in the case of ASCII letters\<close>




section \<open>Letter case beyond ASCII\<close>

text \<open>
  The characters of a string, cut as Go's UTF-8 decoder cuts it: a well-formed sequence
  is the letter (rune) it encodes, a byte that starts no well-formed sequence is a stray
  byte and stands for itself. The decoder reads a stray byte as \<^verbatim>\<open>utf8.RuneError\<close>.
\<close>

datatype symbol = Letter nat | Stray nat

fun symbols :: "nat list \<Rightarrow> symbol list" where
  "symbols [] = []"
| "symbols (s0 # s) =
     (if s0 < 0x80 then Letter s0 # symbols s
      else case utf8_first s0 of
        None \<Rightarrow> Stray s0 # symbols s
      | Some (sz, lo, hi) \<Rightarrow>
          if length (s0 # s) < sz then Stray s0 # symbols s
          else if s ! 0 < lo \<or> hi < s ! 0 then Stray s0 # symbols s
          else if sz \<le> 2 then
            Letter ((s0 mod 32) * 64 + (s ! 0) mod 64) # symbols (drop 1 s)
          else if s ! 1 < 0x80 \<or> 0xBF < s ! 1 then Stray s0 # symbols s
          else if sz \<le> 3 then
            Letter ((s0 mod 16) * 4096 + ((s ! 0) mod 64) * 64 + (s ! 1) mod 64)
              # symbols (drop 2 s)
          else if s ! 2 < 0x80 \<or> 0xBF < s ! 2 then Stray s0 # symbols s
          else
            Letter ((s0 mod 8) * 262144 + ((s ! 0) mod 64) * 4096 + ((s ! 1) mod 64) * 64
               + (s ! 2) mod 64) # symbols (drop 3 s))"

fun rune_of :: "symbol \<Rightarrow> nat" where
  "rune_of (Letter r) = r"
| "rune_of (Stray b) = RuneError"

text \<open>
  \<^verbatim>\<open>unicode.ToUpper\<close>, which the program never calls, says with \<^verbatim>\<open>unicode.ToLower\<close>
  what letter case is; its table beyond ASCII is a parameter \<open>U\<close>. Two letters are the
  same letter in either case when they are equal or one is the lower-case or the
  upper-case form of the other.
\<close>

definition unicode_ToUpper :: "(nat \<Rightarrow> nat) \<Rightarrow> nat \<Rightarrow> nat" where
  "unicode_ToUpper U r =
     (if r \<le> 0x7F then (if 0x61 \<le> r \<and> r \<le> 0x7A then r - 0x20 else r)
      else U r)"

definition case_variants :: "'j golib \<Rightarrow> (nat \<Rightarrow> nat) \<Rightarrow> nat \<Rightarrow> nat \<Rightarrow> bool" where
  "case_variants L U x y =
     (x = y \<or> unicode_ToLower L x = y \<or> unicode_ToLower L y = x
            \<or> unicode_ToUpper U x = y \<or> unicode_ToUpper U y = x)"

text \<open>
  Two strings are alike up to a relation on letters when they hold the same number of
  characters and, position by position, two letters that the relation holds of or the
  same stray byte. They differ only in letter case when they are alike up to
  \<open>case_variants\<close>.
\<close>

fun symbol_rel :: "(nat \<Rightarrow> nat \<Rightarrow> bool) \<Rightarrow> symbol \<Rightarrow> symbol \<Rightarrow> bool" where
  "symbol_rel R (Letter x) (Letter y) = R x y"
| "symbol_rel R (Stray x) (Stray y) = (x = y)"
| "symbol_rel R (Letter x) (Stray y) = False"
| "symbol_rel R (Stray x) (Letter y) = False"

definition alike_up_to :: "(nat \<Rightarrow> nat \<Rightarrow> bool) \<Rightarrow> string \<Rightarrow> string \<Rightarrow> bool" where
  "alike_up_to R a b =
     list_all2 (symbol_rel R) (symbols (map of_char a)) (symbols (map of_char b))"

definition differ_only_in_letter_case ::
  "'j golib \<Rightarrow> (nat \<Rightarrow> nat) \<Rightarrow> string \<Rightarrow> string \<Rightarrow> bool" where
  "differ_only_in_letter_case L U a b = alike_up_to (case_variants L U) a b"

text \<open>Two letters with one lower-case form under \<^verbatim>\<open>unicode.ToLower\<close>.\<close>

definition same_lower_case :: "'j golib \<Rightarrow> nat \<Rightarrow> nat \<Rightarrow> bool" where
  "same_lower_case L x y = (unicode_ToLower L x = unicode_ToLower L y)"

text \<open>
  The rune that \<^verbatim>\<open>utf8.EncodeRune\<close> writes for a rune: \<^verbatim>\<open>utf8.RuneError\<close> for a
  surrogate half or a number beyond \<^verbatim>\<open>utf8.MaxRune\<close>. The lower-cased runes of a string
  are the runes of its characters, each mapped by \<^verbatim>\<open>unicode.ToLower\<close> and written.
\<close>

definition encoded_rune :: "nat \<Rightarrow> nat" where
  "encoded_rune r = (if r > 0x10FFFF \<or> (0xD800 \<le> r \<and> r \<le> 0xDFFF) then RuneError else r)"

definition lowered_runes :: "'j golib \<Rightarrow> string \<Rightarrow> nat list" where
  "lowered_runes L s =
     map (\<lambda>r. encoded_rune (unicode_ToLower L r)) (utf8_decode (map of_char s))"

text \<open>
  Some entries of Go's case tables (\<^verbatim>\<open>unicode.CaseRanges\<close>): the lower case of U+00C9
  (E with acute) is U+00E9 and its upper case U+00C9; the lower case of U+0130 (capital
  I with dot above) is U+0069, the letter i; the lower case of U+03A3 (capital sigma) is
  U+03C3 (small sigma), and the upper case of U+03C3 and of U+03C2 (small final sigma)
  is U+03A3, the final sigma being its own lower case. The two tables below hold these
  entries and leave every other rune as it is.
\<close>

definition caseLower :: "nat \<Rightarrow> nat" where
  "caseLower r = (if r = 0xC9 then 0xE9 else if r = 0x130 then 0x69
                  else if r = 0x3A3 then 0x3C3 else r)"

definition caseUpper :: "nat \<Rightarrow> nat" where
  "caseUpper r = (if r = 0xE9 then 0xC9 else if r = 0x3C2 \<or> r = 0x3C3 then 0x3A3 else r)"

text \<open>
  \<^verbatim>\<open>strings.TrimSpace\<close> on a string of ASCII bytes, where it removes the leading and
  the trailing bytes among tab, line feed, vertical tab, form feed, carriage return and
  space.
\<close>

definition asciiSpace :: "char \<Rightarrow> bool" where
  "asciiSpace c = ((of_char c :: nat) \<in> {0x09, 0x0A, 0x0B, 0x0C, 0x0D, 0x20})"

definition TrimSpace_ASCII :: "string \<Rightarrow> string" where
  "TrimSpace_ASCII s = rev (dropWhile asciiSpace (rev (dropWhile asciiSpace s)))"

text \<open>The library of the scenario with these case tables and this trimming.\<close>

definition tableLib :: "unit golib" where
  "tableLib = sampleLib\<lparr>unicode_To_LowerCase := caseLower, strings_TrimSpace := TrimSpace_ASCII\<rparr>"

text \<open>The scenario with another contact in the incoming record and in the cache entry.\<close>

definition relayWithContact :: "string \<Rightarrow> unit TorRelayDetails" where
  "relayWithContact c = sampleRelay\<lparr>Contact := c\<rparr>"

definition entryWithContact :: "string \<Rightarrow> lrd_entry" where
  "entryWithContact c = sampleEntry(''ContactName'' \<mapsto> c)"

section \<open>The cache entry of a persisted row\<close>

text \<open>Modelled from the spec: the rebuild of the Latest-State Cache
  (\<^verbatim>\<open>initializeLatestRelayDataCache\<close>, a method of \<^verbatim>\<open>DB\<close> that tor-nodes.go calls and
  does not define). A cache entry is a denormalized copy of a persisted row's comparable
  fields, decoded back to display text, with the row's \<^verbatim>\<open>RecordLastSeen\<close>. For the row
  that \<^verbatim>\<open>addNewTorRelayToDB\<close> creates for a relay at a download timestamp, the texts are
  the ones it hands to \<^verbatim>\<open>value2id\<close>, \<^verbatim>\<open>normalizeCountryID\<close> and the insert, under the
  keys \<^verbatim>\<open>recordsMatch\<close> reads.\<close>

definition latestStateEntry :: "'j golib \<Rightarrow> 'j TorRelayDetails \<Rightarrow> string \<Rightarrow> lrd_entry" where
  "latestStateEntry L relay dlts =
     [''Nickname'' \<mapsto> Nickname relay, ''Country'' \<mapsto> Country relay,
      ''CityName'' \<mapsto> City_name relay, ''PlatformName'' \<mapsto> Platform relay,
      ''VersionName'' \<mapsto> Version relay, ''ContactName'' \<mapsto> Contact relay,
      ''Last_changed_address_or_port'' \<mapsto> Last_changed_address_or_port relay,
      ''First_seen'' \<mapsto> First_seen relay,
      ''ExitPolicy'' \<mapsto> json_Marshal_strings L (Exit_policy relay),
      ''ExitPolicySummary'' \<mapsto> json_Marshal_any L (Exit_policy_summary relay),
      ''ExitPolicyV6Summary'' \<mapsto> json_Marshal_any L (Exit_policy_v6_summary relay),
      ''RecordLastSeen'' \<mapsto> dlts]"

text \<open>The scenario before the relay was ever persisted: the cache is empty.\<close>

definition sampleGlobalsEmpty :: "string \<Rightarrow> unit globals" where
  "sampleGlobalsEmpty dlts = \<lparr>g_config = sampleConfig,
     g_db = Some \<lparr>initialized = True, lrd = Map.empty, internals = ()\<rparr>,
     g_consensusDLTS = dlts, journal = []\<rparr>"

section \<open>The batch delta extractor: extractNewAndUpdatedRelays\<close>

text \<open>
  The first loop fills \<^verbatim>\<open>fp2id\<close>, a later record of the old snapshot overwriting an
  earlier one with the same fingerprint. The second loop runs over the new snapshot;
  \<^verbatim>\<open>reflect.DeepEqual\<close> on two relays is equality of the records. An index held by
  \<^verbatim>\<open>fp2id\<close> is a position of the old snapshot, so \<^verbatim>\<open>old[old_id]\<close> is in range.
\<close>

fun build_fp2id ::
  "'j TorRelayDetails list \<Rightarrow> nat \<Rightarrow> (string \<rightharpoonup> nat) \<Rightarrow> (string \<rightharpoonup> nat)" where
  "build_fp2id [] id' fp2id = fp2id"
| "build_fp2id (node # old) id' fp2id =
     build_fp2id old (id' + 1) (fp2id(Fingerprint node \<mapsto> id'))"

fun extract_loop ::
  "'j TorRelayDetails list \<Rightarrow> 'j TorRelayDetails list \<Rightarrow> (string \<rightharpoonup> nat)
     \<Rightarrow> 'j TorRelayDetails list \<Rightarrow> 'j TorRelayDetails list" where
  "extract_loop old [] fp2id result = result"
| "extract_loop old (n # new) fp2id result =
     (case fp2id (Fingerprint n) of
        Some old_id \<Rightarrow>
          if n = old ! old_id then extract_loop old new (fp2id(Fingerprint n := None)) result
          else extract_loop old new fp2id (result @ [n])
      | None \<Rightarrow> extract_loop old new fp2id (result @ [n]))"

definition extractNewAndUpdatedRelays ::
  "'j TorRelayDetails list \<Rightarrow> 'j TorRelayDetails list \<Rightarrow> 'j TorRelayDetails list" where
  "extractNewAndUpdatedRelays old new = extract_loop old new (build_fp2id old 0 Map.empty) []"




section \<open>The download timestamp: getConsensusDLTimestamp\<close>

text \<open>
  A \<^verbatim>\<open>time.Time\<close> is the six numbers the function prints. The clock, \<^verbatim>\<open>time.Parse\<close>
  (\<open>None\<close> when it returns an error), \<^verbatim>\<open>regexp.MustCompile\<close> followed by
  \<^verbatim>\<open>FindAllString(filename, -1)\<close> (\<open>None\<close> when the expression does not compile and
  \<^verbatim>\<open>MustCompile\<close> panics), \<^verbatim>\<open>filepath.Glob\<close> (\<open>None\<close> when it returns an error) and the
  reading and decoding of a consensus by \<^verbatim>\<open>getConsensus\<close> are parameters.
\<close>

record time_Time =
  Year :: nat
  Month :: nat
  Day :: nat
  Hour :: nat
  Minute :: nat
  Second :: nat

record 'j TorResponse =
  Version_resp :: string
  Next_major_version_scheduled :: string
  Build_revision :: string
  Relays_published :: string
  Relays_skipped :: "64 word"
  Relays :: "'j TorRelayDetails list"
  Relays_truncated :: "64 word"
  Bridges_published :: string
  Bridges_skipped :: "64 word"
  Bridges :: "'j list option"
  Bridges_truncated :: "64 word"

record 'j outside =
  time_Now :: time_Time
  time_Parse :: "string \<Rightarrow> string \<Rightarrow> time_Time option"
  regexp_FindAllString :: "string \<Rightarrow> (string \<Rightarrow> string list) option"
  filepath_Glob :: "string \<Rightarrow> string list option"
  getConsensus :: "bool \<Rightarrow> string \<Rightarrow> error + 'j TorResponse"

text \<open>\<^verbatim>\<open>%0wd\<close> of a number that is not negative: its decimal digits, with zeros in
  front up to the width.\<close>

fun decimal :: "nat \<Rightarrow> string" where
  "decimal n = (if n < 10 then [char_of (48 + n)] else decimal (n div 10) @ [char_of (48 + n mod 10)])"

definition fmt_0d :: "nat \<Rightarrow> nat \<Rightarrow> string" where
  "fmt_0d w n = replicate (w - length (decimal n)) (CHR ''0'') @ decimal n"

definition getTimeFormats :: "TorHistoryConfig \<Rightarrow> string list" where
  "getTimeFormats cfg =
     (if length (Tor_ConsensusDLT_fmt cfg) > 0 then [] @ [Tor_ConsensusDLT_fmt cfg]
      else [''2006-01-02_15:04:05'', ''2006-01-02_15:04'', ''20060102150405'', ''200601021504'',
            ''2006-01-02-15-04-05'', ''2006-01-02-15-04'', ''2006-01-02T15:04:05Z07:00'',
            ''2006-01-02T15:04:05.999999999Z07:00'', ''Mon Jan _2 15:04:05 2006'',
            ''Mon Jan _2 15:04:05 MST 2006'', ''02 Jan 06 15:04 MST'', ''02 Jan 06 15:04 -0700'',
            ''Monday, 02-Jan-06 15:04:05 MST'', ''Mon, 02 Jan 2006 15:04:05 MST'',
            ''Mon, 02 Jan 2006 15:04:05 -0700'', ''Mon Jan 02 15:04:05 -0700 2006''])"

text \<open>The inner loop of \<^verbatim>\<open>matchTimestampToFormats\<close>, over the formats, and the outer
  one, over the candidate timestamps; \<open>None\<close> is the nil pointer.\<close>

fun matchFormats :: "'j outside \<Rightarrow> string \<Rightarrow> string list \<Rightarrow> time_Time option" where
  "matchFormats E ts [] = None"
| "matchFormats E ts (f # formats) =
     (case time_Parse E f ts of Some t \<Rightarrow> Some t | None \<Rightarrow> matchFormats E ts formats)"

fun matchTimestampToFormats ::
  "'j outside \<Rightarrow> string list \<Rightarrow> string list \<Rightarrow> time_Time option" where
  "matchTimestampToFormats E [] formats = None"
| "matchTimestampToFormats E (ts # ts_matches) formats =
     (case matchFormats E ts formats of
        Some t \<Rightarrow> Some t
      | None \<Rightarrow> matchTimestampToFormats E ts_matches formats)"

text \<open>The candidate timestamps: the override, replaced by what the expression finds
  in the file name when extraction is on.\<close>

definition ts_matches_of :: "'j outside \<Rightarrow> TorHistoryConfig \<Rightarrow> string \<Rightarrow> error + string list" where
  "ts_matches_of E cfg filename =
     (let ts_matches = (if length (Tor_ConsensusDLT cfg) > 0 then [Tor_ConsensusDLT cfg] else [])
      in if Tor_ExtractDLTfromFilename cfg then
           (case regexp_FindAllString E
                   (if length (Tor_ExtractDLTfromFilename_regex cfg) > 0
                    then Tor_ExtractDLTfromFilename_regex cfg
                    else ''[0-9][0-9-_:]+[0-9]'') of
              None \<Rightarrow> Inl (Panic ''regexp: Compile'')
            | Some findAll \<Rightarrow> Inr (findAll filename))
         else Inr ts_matches)"

definition getConsensusDLTimestamp ::
  "'j outside \<Rightarrow> TorHistoryConfig \<Rightarrow> string \<Rightarrow> error + string" where
  "getConsensusDLTimestamp E cfg filename =
     (let filename = (if filename = [] then Tor_Filename cfg else filename) in
      andThen
        (if \<not> Tor_ExtractDLTfromFilename cfg \<and> length (Tor_ConsensusDLT cfg) = 0
         then Inr (time_Now E)
         else andThen (ts_matches_of E cfg filename)
                (\<lambda>ts_matches.
                   case matchTimestampToFormats E ts_matches (getTimeFormats cfg) of
                     None \<Rightarrow> Inl (Fatal ''Unable to parse timestamp.'')
                   | Some t \<Rightarrow> Inr t))
        (\<lambda>t. Inr (fmt_0d 4 (Year t) @ fmt_0d 2 (Month t) @ fmt_0d 2 (Day t)
                  @ fmt_0d 2 (Hour t) @ fmt_0d 2 (Minute t) @ fmt_0d 2 (Second t))))"

text \<open>
  What the specification asks of the match, in its words: the formats are tried in
  their order for each candidate in turn, and the first pair that parses wins.
\<close>

definition first_parse :: "'j outside \<Rightarrow> string list \<Rightarrow> string list \<Rightarrow> time_Time option" where
  "first_parse E ts_matches formats =
     (case filter (\<lambda>(ts, f). time_Parse E f ts \<noteq> None) (List.product ts_matches formats) of
        [] \<Rightarrow> None
      | (ts, f) # rest \<Rightarrow> time_Parse E f ts)"

section \<open>The cache refresh scheduler and the import loop of main\<close>

definition initializeCaches :: "'r DB_methods \<Rightarrow> 'r globals \<Rightarrow> ('r, 'r globals) result" where
  "initializeCaches M g =
     (if DBServer_Enabled (g_config g) then
        andThen (invoke_proc InitCaches (initCaches M) g) (\<lambda>g.
        andThen (invoke_proc InitCountryNameCache (initCountryNameCache M) g) (\<lambda>g.
          invoke_proc (InitializeLatestRelayDataCache (g_consensusDLTS g))
            (initializeLatestRelayDataCache M (g_consensusDLTS g)) g))
      else Inr g)"

definition logDataImport ::
  "'r DB_methods \<Rightarrow> 'j TorResponse \<Rightarrow> 'r globals \<Rightarrow> ('r, 'r globals) result" where
  "logDataImport M tor_response g =
     (case g_db g of
        None \<Rightarrow> Inr g
      | Some d \<Rightarrow>
          if initialized d then
            invoke_proc
              (AddToTorQueries (Version_resp tor_response) (Relays_published tor_response)
                 (Bridges_published tor_response) (g_consensusDLTS g))
              (addToTorQueries M (Version_resp tor_response) (Relays_published tor_response)
                 (Bridges_published tor_response) (g_consensusDLTS g)) g
          else Inr g)"

text \<open>
  Lines 406 to 413 of main: \<^verbatim>\<open>num % ReInitCaches\<close> on Go's \<^verbatim>\<open>int\<close> truncates toward zero
  and panics when the divisor is zero.
\<close>

definition refreshCaches :: "'r DB_methods \<Rightarrow> nat \<Rightarrow> 'r globals \<Rightarrow> ('r, 'r globals) result" where
  "refreshCaches M num g =
     (if DBServer_ReInitCaches (g_config g) = 0 then
        Inl (Panic ''runtime error: integer divide by zero'', g)
      else if (int num) smod (DBServer_ReInitCaches (g_config g)) = 0 then initializeCaches M g
      else invoke_proc (InitializeLatestRelayDataCache (g_consensusDLTS g))
             (initializeLatestRelayDataCache M (g_consensusDLTS g)) g)"

definition lift :: "error + 'a \<Rightarrow> 'r globals \<Rightarrow> ('r, 'a) result" where
  "lift r g = (case r of Inl e \<Rightarrow> Inl (e, g) | Inr a \<Rightarrow> Inr a)"

fun import_loop ::
  "'j outside \<Rightarrow> 'j golib \<Rightarrow> 'r DB_methods \<Rightarrow> nat \<Rightarrow> string list \<Rightarrow> 'j TorResponse
     \<Rightarrow> 'r globals \<Rightarrow> ('r, 'r globals) result" where
  "import_loop E L M num [] previous_tor_response g = Inr g"
| "import_loop E L M num (fn # filenames) previous_tor_response g =
     andThen (lift (getConsensusDLTimestamp E (g_config g) fn) g) (\<lambda>dlts.
     andThen (refreshCaches M num (g\<lparr>g_consensusDLTS := dlts\<rparr>)) (\<lambda>g.
     andThen (lift (getConsensus E False fn) g) (\<lambda>tor_response.
       let old_miss = extractNewAndUpdatedRelays (Relays previous_tor_response)
                        (Relays tor_response);
           previous_tor_response = tor_response;
           tor_response = (if num \<noteq> 0 then tor_response\<lparr>Relays := old_miss\<rparr> else tor_response)
       in andThen (logDataImport M tor_response g) (\<lambda>g.
          andThen (processTorResponse L M (Relays tor_response) g) (\<lambda>g.
            import_loop E L M (num + 1) filenames previous_tor_response g)))))"

definition zeroResponse :: "'j TorResponse" where
  "zeroResponse = \<lparr>Version_resp = [], Next_major_version_scheduled = [], Build_revision = [],
     Relays_published = [], Relays_skipped = 0, Relays = [], Relays_truncated = 0,
     Bridges_published = [], Bridges_skipped = 0, Bridges = None, Bridges_truncated = 0\<rparr>"

text \<open>\<^verbatim>\<open>main\<close> after \<^verbatim>\<open>initialize()\<close>, which has opened the database or left
  \<^verbatim>\<open>g_db\<close> nil.\<close>

definition main :: "'j outside \<Rightarrow> 'j golib \<Rightarrow> 'r DB_methods \<Rightarrow> 'r globals \<Rightarrow> ('r, 'r globals) result" where
  "main E L M g =
     (if Tor_Filename (g_config g) = [] then
        andThen (lift (getConsensusDLTimestamp E (g_config g) []) g) (\<lambda>dlts.
        andThen (initializeCaches M (g\<lparr>g_consensusDLTS := dlts\<rparr>)) (\<lambda>g.
        andThen (lift (getConsensus E True (Tor_ConsensusURL (g_config g))) g) (\<lambda>tor_response.
        andThen (logDataImport M tor_response g) (\<lambda>g.
          processTorResponse L M (Relays tor_response) g))))
      else
        case filepath_Glob E (Tor_Filename (g_config g)) of
          None \<Rightarrow> Inl (Fatal ''Bad filename pattern: '', g)
        | Some filenames \<Rightarrow>
            if length filenames = 0 then Inl (Fatal ''Bad filename pattern: '', g)
            else if length filenames > 1 \<and> Tor_ConsensusDLT (g_config g) \<noteq> [] then
              Inl (Fatal ''Bulk import detected however -consensus-download-time is also specified.'', g)
            else
              let g = (if length filenames > 1 \<and> \<not> Tor_ExtractDLTfromFilename (g_config g)
                       then g\<lparr>g_config := (g_config g)\<lparr>Tor_ExtractDLTfromFilename := True\<rparr>\<rparr>
                       else g)
              in andThen (lift (getConsensusDLTimestamp E (g_config g) (filenames ! 0)) g) (\<lambda>dlts.
                 andThen (initializeCaches M (g\<lparr>g_consensusDLTS := dlts\<rparr>)) (\<lambda>g.
                   import_loop E L M 0 filenames zeroResponse g)))"

text \<open>An outside world for the scenario: one timestamp parses, under one format.\<close>

definition sampleOutside :: "unit outside" where
  "sampleOutside = \<lparr>time_Now = \<lparr>Year = 2023, Month = 1, Day = 5, Hour = 0, Minute = 0, Second = 0\<rparr>,
     time_Parse = (\<lambda>f ts. if f = ''20060102150405'' \<and> ts = ''20230101000000''
        then Some \<lparr>Year = 2023, Month = 1, Day = 1, Hour = 0, Minute = 0, Second = 0\<rparr> else None),
     regexp_FindAllString = (\<lambda>re. Some (\<lambda>s. [])),
     filepath_Glob = (\<lambda>pat. Some [pat]),
     getConsensus = (\<lambda>is_url location. Inr (zeroResponse\<lparr>Relays := [sampleRelay]\<rparr>))\<rparr>"

text \<open>
  The calls that load caches, the calls one file of the loop is due (a full
  initialization, which does nothing when the database is disabled, or the reload of
  the latest relay data alone), and the download timestamp of a file.
\<close>

fun is_cache_call :: "db_call \<Rightarrow> bool" where
  "is_cache_call InitCaches = True"
| "is_cache_call InitCountryNameCache = True"
| "is_cache_call (InitializeLatestRelayDataCache dlts) = True"
| "is_cache_call c = False"

definition cache_calls :: "db_call list \<Rightarrow> db_call list" where
  "cache_calls j = filter is_cache_call j"

definition scheduled_cache_calls :: "TorHistoryConfig \<Rightarrow> nat \<Rightarrow> string \<Rightarrow> db_call list" where
  "scheduled_cache_calls cfg i dlts =
     (if i mod nat (DBServer_ReInitCaches cfg) = 0 then
        (if DBServer_Enabled cfg then
           [InitCaches, InitCountryNameCache, InitializeLatestRelayDataCache dlts]
         else [])
      else [InitializeLatestRelayDataCache dlts])"

definition dlts_of :: "'j outside \<Rightarrow> TorHistoryConfig \<Rightarrow> string \<Rightarrow> string" where
  "dlts_of E cfg fn = (case getConsensusDLTimestamp E cfg fn of Inl e \<Rightarrow> [] | Inr dlts \<Rightarrow> dlts)"

text \<open>The same outside world, every consensus file holding no relay.\<close>

definition sampleOutsideEmpty :: "unit outside" where
  "sampleOutsideEmpty = sampleOutside\<lparr>getConsensus := (\<lambda>is_url location. Inr zeroResponse)\<rparr>"

section \<open>The change detector\<close>

lemma json_Marshal_strings_nonempty: "json_Marshal_strings L v \<noteq> []"
  by (simp add: json_Marshal_strings_def split: option.splits)

lemma recordsMatch_nil_map: "\<not> recordsMatch L relay Map.empty"
  using json_Marshal_strings_nonempty[of L "Exit_policy relay"]
  by (simp add: recordsMatch_def go_index_def)

lemma processRelay_mismatch:
  assumes "allStringsInSetMatch (Filter_matchFlags (g_config g)) (Flags relay)"
    and "g_db g = Some d" and "initialized d"
    and "\<not> recordsMatch L (relay\<lparr>Contact := strings_TrimSpace L (Contact relay)\<rparr>)
           (lrd_index (lrd d) (Fingerprint relay))"
  shows "processRelay L M relay g =
     addNewTorRelayToDB L M (relay\<lparr>Contact := strings_TrimSpace L (Contact relay)\<rparr>) g"
  using assms by (simp add: processRelay_def Let_def)

lemma processRelay_noop:
  assumes "g_db g = Some d"
    and "recordsMatch L (relay\<lparr>Contact := strings_TrimSpace L (Contact relay)\<rparr>)
           (lrd_index (lrd d) (Fingerprint relay))"
    and "g_consensusDLTS g \<le> go_index (lrd_index (lrd d) (Fingerprint relay)) ''RecordLastSeen''"
  shows "processRelay L M relay g = Inr g"
  using assms by (auto simp: processRelay_def Let_def)

subsection \<open>Facts about the scenario\<close>

lemma sample_ToLower: "strings_ToLower sampleLib ''Op@Example.org'' = ''op@example.org''"
  by code_simp

lemma sample_ToLower_cached: "strings_ToLower sampleLib ''op@example.org'' = ''op@example.org''"
  by code_simp

lemma sample_trim:
  "sampleRelay\<lparr>Contact := strings_TrimSpace sampleLib (Contact sampleRelay)\<rparr> = sampleRelay"
  by (simp add: sampleLib_def)

lemma sample_cached: "lrd_index (lrd sampleDBState) (Fingerprint sampleRelay) = sampleEntry"
  by (simp add: lrd_index_def sampleDBState_def sampleRelay_def)

lemma sample_match: "recordsMatch sampleLib sampleRelay sampleEntry"
  by (simp add: recordsMatch_def sample_ToLower sample_ToLower_cached sampleRelay_def
      sampleEntry_def zeroRelay_def go_index_def json_Marshal_strings_def json_Marshal_any_def)

lemma sample_db: "g_db (sampleGlobals dlts) = Some sampleDBState"
  by (simp add: sampleGlobals_def)

lemma sample_filter:
  "allStringsInSetMatch (Filter_matchFlags (g_config (sampleGlobals dlts))) fl"
  by (simp add: sampleGlobals_def sampleConfig_def allStringsInSetMatch_def)

subsection \<open>Monotonicity of the freshness marker\<close>

text \<open>
  Claim C3. When the record, its contact trimmed, matches the cached entry and the
  download timestamp of the snapshot is strictly earlier than the cached
  \<^verbatim>\<open>RecordLastSeen\<close>, reconciling the record changes nothing: the database handle and
  the cache in it are as before and no method of the database is called, so
  \<^verbatim>\<open>RecordLastSeen\<close> is not written, no row is created and no address history is touched.
\<close>

theorem stale_snapshot_writes_nothing:
  assumes "g_db g = Some d"
    and "recordsMatch L (relay\<lparr>Contact := strings_TrimSpace L (Contact relay)\<rparr>)
           (lrd_index (lrd d) (Fingerprint relay))"
    and "g_consensusDLTS g < go_index (lrd_index (lrd d) (Fingerprint relay)) ''RecordLastSeen''"
  shows "processRelay L M relay g = Inr g \<and> processTorResponse L M [relay] g = Inr g"
  using processRelay_noop[OF assms(1,2), of M] assms(3)
  by (simp add: processTorResponse_def andThen_def)

theorem stale_snapshot_writes_nothing_witness:
  "processRelay sampleLib sampleDB sampleRelay (sampleGlobals ''20221231000000'')
     = Inr (sampleGlobals ''20221231000000'')
   \<and> processTorResponse sampleLib sampleDB [sampleRelay] (sampleGlobals ''20221231000000'')
     = Inr (sampleGlobals ''20221231000000'')"
proof -
  have h2: "recordsMatch sampleLib
      (sampleRelay\<lparr>Contact := strings_TrimSpace sampleLib (Contact sampleRelay)\<rparr>)
      (lrd_index (lrd sampleDBState) (Fingerprint sampleRelay))"
    by (simp only: sample_trim sample_cached sample_match)
  have h3: "g_consensusDLTS (sampleGlobals ''20221231000000'')
      < go_index (lrd_index (lrd sampleDBState) (Fingerprint sampleRelay)) ''RecordLastSeen''"
    by (simp add: sample_cached) (simp add: sampleGlobals_def sampleEntry_def go_index_def)
  show ?thesis
    using stale_snapshot_writes_nothing[OF sample_db h2 h3] .
qed

subsection \<open>Contact case-insensitivity\<close>
















subsection \<open>Change detection completeness\<close>



subsection \<open>Contacts that differ only in letter case\<close>




section \<open>The database calls of one reconciliation\<close>

lemma invoke_Some:
  "g_db g \<noteq> None \<Longrightarrow>
   invoke ev m g =
     Inr (fst (m (the (g_db g))),
          g\<lparr>g_db := Some (snd (m (the (g_db g)))), journal := journal g @ [ev]\<rparr>)"
  by (auto simp: invoke_def split: option.splits prod.splits)

lemma invoke_proc_Some:
  "g_db g \<noteq> None \<Longrightarrow>
   invoke_proc ev m g = Inr (g\<lparr>g_db := Some (m (the (g_db g))), journal := journal g @ [ev]\<rparr>)"
  by (simp add: invoke_proc_def invoke_Some andThen_def)

lemma rows_of_append [simp]: "rows_of (xs @ ys) = rows_of xs @ rows_of ys"
  by (simp add: rows_of_def)

lemma rows_of_Nil [simp]: "rows_of [] = []"
  by (simp add: rows_of_def)

lemma rows_of_Cons [simp]:
  "rows_of (c # cs) = (case c of StmtAddTorRelays row \<Rightarrow> [row] | _ \<Rightarrow> []) @ rows_of cs"
  by (simp add: rows_of_def)

lemma cache_calls_append [simp]: "cache_calls (xs @ ys) = cache_calls xs @ cache_calls ys"
  by (simp add: cache_calls_def)

lemma cache_calls_Nil [simp]: "cache_calls [] = []"
  by (simp add: cache_calls_def)

lemma cache_calls_Cons [simp]:
  "cache_calls (c # cs) = (if is_cache_call c then [c] else []) @ cache_calls cs"
  by (simp add: cache_calls_def)

lemma forEach_addToIP:
  "g_db g \<noteq> None \<Longrightarrow>
   \<exists>g'. forEach addrs
          (\<lambda>a g. invoke_proc (AddToIP role fpid (g_consensusDLTS g) (g_consensusDLTS g) a)
                   (addToIP M role fpid (g_consensusDLTS g) (g_consensusDLTS g) a) g) g = Inr g'
      \<and> g_db g' \<noteq> None \<and> rows_of (journal g') = rows_of (journal g)
      \<and> cache_calls (journal g') = cache_calls (journal g)
      \<and> g_consensusDLTS g' = g_consensusDLTS g \<and> g_config g' = g_config g"
proof (induction addrs arbitrary: g)
  case Nil
  then show ?case by simp
next
  case (Cons a addrs)
  let ?g1 = "g\<lparr>g_db := Some (addToIP M role fpid (g_consensusDLTS g) (g_consensusDLTS g) a
                               (the (g_db g))),
               journal := journal g @ [AddToIP role fpid (g_consensusDLTS g) (g_consensusDLTS g) a]\<rparr>"
  have "g_db ?g1 \<noteq> None" by simp
  from Cons.IH[OF this] show ?case
    using Cons.prems by (simp add: invoke_proc_Some andThen_def)
qed

lemma addNewRelayAddresses_rows:
  assumes "g_db g \<noteq> None"
  shows "\<exists>g'. addNewRelayAddresses M lastID fpid ors exs di g = Inr g'
      \<and> g_db g' \<noteq> None \<and> rows_of (journal g') = rows_of (journal g)
      \<and> cache_calls (journal g') = cache_calls (journal g)
      \<and> g_consensusDLTS g' = g_consensusDLTS g \<and> g_config g' = g_config g"
proof -
  obtain g1 where g1: "(if length (elems ors) > 0 then
          forEach (elems ors)
            (\<lambda>a g. invoke_proc (AddToIP ''Or'' fpid (g_consensusDLTS g) (g_consensusDLTS g) a)
                   (addToIP M ''Or'' fpid (g_consensusDLTS g) (g_consensusDLTS g) a) g) g
        else Inr g) = Inr g1" "g_db g1 \<noteq> None" "rows_of (journal g1) = rows_of (journal g)"
        "g_consensusDLTS g1 = g_consensusDLTS g" "g_config g1 = g_config g"
        "cache_calls (journal g1) = cache_calls (journal g)"
    using forEach_addToIP[OF assms, of "elems ors" "''Or''" fpid M] assms
    by (cases "length (elems ors) > 0") auto
  obtain g2 where g2: "(if length (elems exs) > 0 then
          forEach (elems exs)
            (\<lambda>a g. invoke_proc (AddToIP ''Ex'' fpid (g_consensusDLTS g) (g_consensusDLTS g) a)
                   (addToIP M ''Ex'' fpid (g_consensusDLTS g) (g_consensusDLTS g) a) g) g1
        else Inr g1) = Inr g2" "g_db g2 \<noteq> None" "rows_of (journal g2) = rows_of (journal g1)"
        "g_consensusDLTS g2 = g_consensusDLTS g1" "g_config g2 = g_config g1"
        "cache_calls (journal g2) = cache_calls (journal g1)"
    using forEach_addToIP[OF g1(2), of "elems exs" "''Ex''" fpid M] g1(2)
    by (cases "length (elems exs) > 0") auto
  show ?thesis
    unfolding addNewRelayAddresses_def using g1 g2
    by (simp add: andThen_def invoke_proc_Some)
qed

lemma Flags_cleanup: "Flags (cleanupRelayStruct r) = Flags r"
  by (simp add: cleanupRelayStruct_def)

lemma exec_tail:
  assumes "g_db g \<noteq> None"
  shows "rows_of (journal (final_globals
     (case res of Inl err \<Rightarrow> Inl (Panic (m @ err), g)
      | Inr lastID \<Rightarrow> addNewRelayAddresses M lastID fpid ors exs di g))) = rows_of (journal g)
   \<and> g_consensusDLTS (final_globals
     (case res of Inl err \<Rightarrow> Inl (Panic (m @ err), g)
      | Inr lastID \<Rightarrow> addNewRelayAddresses M lastID fpid ors exs di g)) = g_consensusDLTS g
   \<and> g_config (final_globals
     (case res of Inl err \<Rightarrow> Inl (Panic (m @ err), g)
      | Inr lastID \<Rightarrow> addNewRelayAddresses M lastID fpid ors exs di g)) = g_config g
   \<and> g_db (final_globals
     (case res of Inl err \<Rightarrow> Inl (Panic (m @ err), g)
      | Inr lastID \<Rightarrow> addNewRelayAddresses M lastID fpid ors exs di g)) \<noteq> None
   \<and> cache_calls (journal (final_globals
     (case res of Inl err \<Rightarrow> Inl (Panic (m @ err), g)
      | Inr lastID \<Rightarrow> addNewRelayAddresses M lastID fpid ors exs di g)))
       = cache_calls (journal g)"
proof (cases res)
  case (Inl err)
  then show ?thesis using assms by (simp add: final_globals_def)
next
  case (Inr lastID)
  from addNewRelayAddresses_rows[OF assms, of M lastID fpid ors exs di]
  obtain g' where "addNewRelayAddresses M lastID fpid ors exs di g = Inr g'"
    "rows_of (journal g') = rows_of (journal g)" "g_db g' \<noteq> None"
    "g_consensusDLTS g' = g_consensusDLTS g" "g_config g' = g_config g"
    "cache_calls (journal g') = cache_calls (journal g)" by blast
  with Inr show ?thesis by (simp add: final_globals_def)
qed

lemma addNewTorRelayToDB_row:
  assumes "g_db g \<noteq> None"
  shows "\<exists>row. rows_of (journal (final_globals (addNewTorRelayToDB L M relay g)))
             = rows_of (journal g) @ [row]
          \<and> arg_nick row = Nickname relay
          \<and> arg_lastChanged row = Last_changed_address_or_port relay
          \<and> arg_firstSeen row = First_seen relay
          \<and> arg_RecordTimeInserted row = g_consensusDLTS g
          \<and> arg_RecordLastSeen row = g_consensusDLTS g
          \<and> arg_jsFlags row = json_Marshal_strings L (Flags relay)
          \<and> arg_jsRelay row = json_relay L (cleanupRelayStruct relay)"
  using assms
  by (simp add: addNewTorRelayToDB_def call_value2id_def invoke_Some andThen_def Let_def
      case_prod_beta Flags_cleanup exec_tail)

lemma addNewTorRelayToDB_frame:
  assumes "g_db g \<noteq> None"
  shows "g_consensusDLTS (final_globals (addNewTorRelayToDB L M relay g)) = g_consensusDLTS g
       \<and> g_config (final_globals (addNewTorRelayToDB L M relay g)) = g_config g
       \<and> g_db (final_globals (addNewTorRelayToDB L M relay g)) \<noteq> None
       \<and> cache_calls (journal (final_globals (addNewTorRelayToDB L M relay g)))
           = cache_calls (journal g)"
  using assms
  by (simp add: addNewTorRelayToDB_def call_value2id_def invoke_Some andThen_def Let_def
      case_prod_beta exec_tail)

lemma forEach_sync:
  "g_db g \<noteq> None \<Longrightarrow>
   \<exists>g'. forEach addrs (call_updateIfNeededRelayAddressRLS M role fp) g = Inr g'
      \<and> g_db g' \<noteq> None
      \<and> map forget_ids (journal g') = map forget_ids (journal g)
           @ map (UpdateIfNeededRelayAddressRLS role [] (g_consensusDLTS g)) addrs
      \<and> g_consensusDLTS g' = g_consensusDLTS g \<and> g_config g' = g_config g"
proof (induction addrs arbitrary: g)
  case Nil
  then show ?case by simp
next
  case (Cons a addrs)
  obtain d where d: "g_db g = Some d" using Cons.prems by auto
  let ?fpid = "go_index (lrd_index (lrd d) fp) ''ID_NodeFingerprints''"
  let ?g1 = "g\<lparr>g_db := Some (updateIfNeededRelayAddressRLS M role ?fpid (g_consensusDLTS g) a d),
               journal := journal g
                 @ [UpdateIfNeededRelayAddressRLS role ?fpid (g_consensusDLTS g) a]\<rparr>"
  have step: "call_updateIfNeededRelayAddressRLS M role fp a g = Inr ?g1"
    using d by (simp add: call_updateIfNeededRelayAddressRLS_def invoke_proc_Some Let_def)
  have "g_db ?g1 \<noteq> None" by simp
  from Cons.IH[OF this] show ?case
    using step by (simp add: andThen_def)
qed

lemma updateRelayAddressesIfNeeded_journal:
  assumes "g_db g \<noteq> None"
  shows "\<exists>g'. updateRelayAddressesIfNeeded M relay g = Inr g'
      \<and> g_db g' \<noteq> None
      \<and> map forget_ids (journal g') = map forget_ids (journal g)
           @ map (UpdateIfNeededRelayAddressRLS ''Or'' [] (g_consensusDLTS g))
               (elems (Or_addresses relay))
           @ map (UpdateIfNeededRelayAddressRLS ''Ex'' [] (g_consensusDLTS g))
               (elems (Exit_addresses relay))
           @ (if Dir_address relay \<noteq> [] then
                [UpdateIfNeededRelayAddressRLS ''Di'' [] (g_consensusDLTS g) (Dir_address relay)]
              else [])
      \<and> g_consensusDLTS g' = g_consensusDLTS g \<and> g_config g' = g_config g"
proof -
  let ?fp = "Fingerprint relay"
  obtain g1 where g1: "forEach (elems (Or_addresses relay))
        (call_updateIfNeededRelayAddressRLS M ''Or'' ?fp) g = Inr g1" "g_db g1 \<noteq> None"
      "map forget_ids (journal g1) = map forget_ids (journal g)
           @ map (UpdateIfNeededRelayAddressRLS ''Or'' [] (g_consensusDLTS g))
               (elems (Or_addresses relay))"
      "g_consensusDLTS g1 = g_consensusDLTS g" "g_config g1 = g_config g"
    using forEach_sync[OF assms] by blast
  obtain g2 where g2: "forEach (elems (Exit_addresses relay))
        (call_updateIfNeededRelayAddressRLS M ''Ex'' ?fp) g1 = Inr g2" "g_db g2 \<noteq> None"
      "map forget_ids (journal g2) = map forget_ids (journal g1)
           @ map (UpdateIfNeededRelayAddressRLS ''Ex'' [] (g_consensusDLTS g1))
               (elems (Exit_addresses relay))"
      "g_consensusDLTS g2 = g_consensusDLTS g1" "g_config g2 = g_config g1"
    using forEach_sync[OF g1(2)] by blast
  obtain g3 where g3: "forEach (if Dir_address relay \<noteq> [] then [Dir_address relay] else [])
        (call_updateIfNeededRelayAddressRLS M ''Di'' ?fp) g2 = Inr g3" "g_db g3 \<noteq> None"
      "map forget_ids (journal g3) = map forget_ids (journal g2)
           @ map (UpdateIfNeededRelayAddressRLS ''Di'' [] (g_consensusDLTS g2))
               (if Dir_address relay \<noteq> [] then [Dir_address relay] else [])"
      "g_consensusDLTS g3 = g_consensusDLTS g2" "g_config g3 = g_config g2"
    using forEach_sync[OF g2(2)] by blast
  have or: "(if length (elems (Or_addresses relay)) > 0 then
           forEach (elems (Or_addresses relay))
             (\<lambda>or'. call_updateIfNeededRelayAddressRLS M ''Or'' ?fp or') g
         else Inr g) = Inr g1"
    using g1(1) by (cases "elems (Or_addresses relay)") auto
  have ex: "(if length (elems (Exit_addresses relay)) > 0 then
              forEach (elems (Exit_addresses relay))
                (\<lambda>ex. call_updateIfNeededRelayAddressRLS M ''Ex'' ?fp ex) g1
            else Inr g1) = Inr g2"
    using g2(1) by (cases "elems (Exit_addresses relay)") auto
  have di: "(if length (Dir_address relay) > 0 then
                  call_updateIfNeededRelayAddressRLS M ''Di'' ?fp (Dir_address relay) g2
                else Inr g2) = Inr g3"
    using g3(1) by (auto simp: andThen_def split: sum.splits)
  have "updateRelayAddressesIfNeeded M relay g = Inr g3"
    unfolding updateRelayAddressesIfNeeded_def Let_def using or ex di
    by (simp add: andThen_def)
  then show ?thesis using g1 g2 g3 by auto
qed

lemma recordsMatch_latestStateEntry:
  assumes "latestStateEntry L relay dlts \<subseteq>\<^sub>m e"
  shows "recordsMatch L relay e \<and> go_index e ''RecordLastSeen'' = dlts"
proof -
  have "\<And>k v. latestStateEntry L relay dlts k = Some v \<Longrightarrow> go_index e k = v"
    using assms by (auto simp: map_le_def go_index_def dom_def split: option.splits)
  then show ?thesis
    by (simp add: recordsMatch_def Let_def latestStateEntry_def)
qed

lemma processRelay_match:
  assumes "allStringsInSetMatch (Filter_matchFlags (g_config g)) (Flags relay)"
    and "g_db g = Some d" and "initialized d"
    and "recordsMatch L (relay\<lparr>Contact := strings_TrimSpace L (Contact relay)\<rparr>)
           (lrd_index (lrd d) (Fingerprint relay))"
  shows "processRelay L M relay g =
     (if g_consensusDLTS g = go_index (lrd_index (lrd d) (Fingerprint relay)) ''RecordLastSeen''
      then Inr g
      else if g_consensusDLTS g < go_index (lrd_index (lrd d) (Fingerprint relay)) ''RecordLastSeen''
      then Inr g
      else andThen
             (updateRelayAddressesIfNeeded M
                (relay\<lparr>Contact := strings_TrimSpace L (Contact relay)\<rparr>) g)
             (call_updateTorRelayRLS M (Fingerprint relay)))"
  using assms by (simp add: processRelay_def Let_def)

lemma rows_of_forget_ids: "rows_of (map forget_ids j) = rows_of j"
proof (induction j)
  case Nil
  then show ?case by simp
next
  case (Cons c j)
  then show ?case by (cases c) simp_all
qed

lemma rows_of_sync [simp]: "rows_of (map (UpdateIfNeededRelayAddressRLS role fpid dlts) addrs) = []"
  by (induction addrs) simp_all

text \<open>
  Claim C5. When the record, its contact trimmed, matches the cached entry and the
  download timestamp is strictly later than the cached \<^verbatim>\<open>RecordLastSeen\<close>, reconciling
  it first calls \<^verbatim>\<open>updateIfNeededRelayAddressRLS\<close> for every OR address, then for every
  Exit address, then for the Dir address when it is not empty, each with the download
  timestamp, and then calls \<^verbatim>\<open>updateTorRelayRLS\<close> once, with the row id the cache holds for
  the fingerprint and the download timestamp. It returns, and no entity row is created.
\<close>

theorem freshness_only_update:
  assumes "allStringsInSetMatch (Filter_matchFlags (g_config g)) (Flags relay)"
    and "g_db g = Some d" and "initialized d"
    and "recordsMatch L (relay\<lparr>Contact := strings_TrimSpace L (Contact relay)\<rparr>)
           (lrd_index (lrd d) (Fingerprint relay))"
    and "go_index (lrd_index (lrd d) (Fingerprint relay)) ''RecordLastSeen'' < g_consensusDLTS g"
  shows "\<exists>g1 d1 g2.
       updateRelayAddressesIfNeeded M (relay\<lparr>Contact := strings_TrimSpace L (Contact relay)\<rparr>) g
         = Inr g1
     \<and> map forget_ids (journal g1) = map forget_ids (journal g)
           @ map (UpdateIfNeededRelayAddressRLS ''Or'' [] (g_consensusDLTS g))
               (elems (Or_addresses relay))
           @ map (UpdateIfNeededRelayAddressRLS ''Ex'' [] (g_consensusDLTS g))
               (elems (Exit_addresses relay))
           @ (if Dir_address relay \<noteq> [] then
                [UpdateIfNeededRelayAddressRLS ''Di'' [] (g_consensusDLTS g) (Dir_address relay)]
              else [])
     \<and> g_db g1 = Some d1
     \<and> processRelay L M relay g = Inr g2
     \<and> journal g2 = journal g1
          @ [UpdateTorRelayRLS (go_index (lrd_index (lrd d1) (Fingerprint relay)) ''id'')
               (g_consensusDLTS g)]
     \<and> g_db g2 = Some (updateTorRelayRLS M
          (go_index (lrd_index (lrd d1) (Fingerprint relay)) ''id'') (g_consensusDLTS g) d1)
     \<and> rows_of (journal g2) = rows_of (journal g)"
proof -
  let ?relay = "relay\<lparr>Contact := strings_TrimSpace L (Contact relay)\<rparr>"
  let ?fp = "Fingerprint relay"
  have db: "g_db g \<noteq> None" using assms(2) by simp
  from updateRelayAddressesIfNeeded_journal[OF db, of M ?relay]
  obtain g1 where g1: "updateRelayAddressesIfNeeded M ?relay g = Inr g1" "g_db g1 \<noteq> None"
      "map forget_ids (journal g1) = map forget_ids (journal g)
           @ map (UpdateIfNeededRelayAddressRLS ''Or'' [] (g_consensusDLTS g))
               (elems (Or_addresses relay))
           @ map (UpdateIfNeededRelayAddressRLS ''Ex'' [] (g_consensusDLTS g))
               (elems (Exit_addresses relay))
           @ (if Dir_address relay \<noteq> [] then
                [UpdateIfNeededRelayAddressRLS ''Di'' [] (g_consensusDLTS g) (Dir_address relay)]
              else [])"
      "g_consensusDLTS g1 = g_consensusDLTS g"
    by auto
  obtain d1 where d1: "g_db g1 = Some d1" using g1(2) by auto
  let ?trid = "go_index (lrd_index (lrd d1) ?fp) ''id''"
  let ?g2 = "g1\<lparr>g_db := Some (updateTorRelayRLS M ?trid (g_consensusDLTS g) d1),
                journal := journal g1 @ [UpdateTorRelayRLS ?trid (g_consensusDLTS g)]\<rparr>"
  have rls: "call_updateTorRelayRLS M ?fp g1 = Inr ?g2"
    using d1 g1(4) by (simp add: call_updateTorRelayRLS_def invoke_proc_Some Let_def)
  have later: "g_consensusDLTS g \<noteq> go_index (lrd_index (lrd d) ?fp) ''RecordLastSeen''"
    "\<not> g_consensusDLTS g < go_index (lrd_index (lrd d) ?fp) ''RecordLastSeen''"
    using assms(5) by auto
  have run: "processRelay L M relay g = Inr ?g2"
    using processRelay_match[OF assms(1-4), of M] later g1(1) rls by (simp add: andThen_def)
  have "rows_of (journal g1) = rows_of (map forget_ids (journal g1))"
    by (simp add: rows_of_forget_ids)
  also have "\<dots> = rows_of (journal g)"
    by (simp add: g1(3) rows_of_forget_ids)
  finally have rows: "rows_of (journal ?g2) = rows_of (journal g)" by simp
  show ?thesis
    using g1(1,3) d1 run rows by (intro exI[of _ g1] exI[of _ d1] exI[of _ ?g2]) simp
qed

text \<open>
  Claim C4. When the record, its contact trimmed, matches the cached entry and the
  download timestamp equals the cached \<^verbatim>\<open>RecordLastSeen\<close>, reconciling it changes
  nothing and calls no method of the database. Hence: reconcile a record against a
  cache with no entry for its fingerprint, let the cache then hold the entry of the row
  just created, and reconcile the same record again with the same download timestamp;
  the second pass changes nothing, and the two passes together created exactly one row.
\<close>

theorem same_snapshot_idempotent:
  assumes "g_db g = Some d"
  shows "(recordsMatch L (relay\<lparr>Contact := strings_TrimSpace L (Contact relay)\<rparr>)
             (lrd_index (lrd d) (Fingerprint relay))
          \<and> g_consensusDLTS g = go_index (lrd_index (lrd d) (Fingerprint relay)) ''RecordLastSeen''
        \<longrightarrow> processRelay L M relay g = Inr g)
     \<and> (allStringsInSetMatch (Filter_matchFlags (g_config g)) (Flags relay)
          \<and> initialized d \<and> lrd d (Fingerprint relay) = None
          \<and> processRelay L M relay g = Inr ga \<and> g_db ga = Some da
          \<and> latestStateEntry L (relay\<lparr>Contact := strings_TrimSpace L (Contact relay)\<rparr>)
               (g_consensusDLTS g) \<subseteq>\<^sub>m lrd_index c (Fingerprint relay)
          \<and> gb = ga\<lparr>g_db := Some (da\<lparr>lrd := c\<rparr>)\<rparr>
        \<longrightarrow> processRelay L M relay gb = Inr gb
          \<and> (\<exists>row. rows_of (journal gb) = rows_of (journal g) @ [row]))"
proof (intro conjI impI)
  let ?relay = "relay\<lparr>Contact := strings_TrimSpace L (Contact relay)\<rparr>"
  let ?fp = "Fingerprint relay"
  {
    assume "recordsMatch L ?relay (lrd_index (lrd d) ?fp)
          \<and> g_consensusDLTS g = go_index (lrd_index (lrd d) ?fp) ''RecordLastSeen''"
    then show "processRelay L M relay g = Inr g"
      using processRelay_noop[OF assms, of L relay M] by simp
  }
  assume h: "allStringsInSetMatch (Filter_matchFlags (g_config g)) (Flags relay)
          \<and> initialized d \<and> lrd d ?fp = None
          \<and> processRelay L M relay g = Inr ga \<and> g_db ga = Some da
          \<and> latestStateEntry L ?relay (g_consensusDLTS g) \<subseteq>\<^sub>m lrd_index c ?fp
          \<and> gb = ga\<lparr>g_db := Some (da\<lparr>lrd := c\<rparr>)\<rparr>"
  have db: "g_db g \<noteq> None" using assms by simp
  have "lrd_index (lrd d) ?fp = Map.empty" using h by (simp add: lrd_index_def)
  then have "\<not> recordsMatch L ?relay (lrd_index (lrd d) ?fp)"
    by (simp add: recordsMatch_nil_map)
  then have ins: "processRelay L M relay g = addNewTorRelayToDB L M ?relay g"
    using processRelay_mismatch[of g relay d L M] h assms by simp
  have "addNewTorRelayToDB L M ?relay g = Inr ga"
    using ins h by simp
  then have fin: "final_globals (addNewTorRelayToDB L M ?relay g) = ga"
    by (simp add: final_globals_def)
  obtain row where row: "rows_of (journal ga) = rows_of (journal g) @ [row]"
    using addNewTorRelayToDB_row[OF db, of L M ?relay] fin by auto
  have dlts: "g_consensusDLTS ga = g_consensusDLTS g"
    using addNewTorRelayToDB_frame[OF db, of L M ?relay] fin by simp
  have gb: "g_db gb = Some (da\<lparr>lrd := c\<rparr>)" "g_consensusDLTS gb = g_consensusDLTS g"
    "journal gb = journal ga"
    using h dlts by simp_all
  have m: "recordsMatch L ?relay (lrd_index (lrd (da\<lparr>lrd := c\<rparr>)) ?fp)"
    "go_index (lrd_index (lrd (da\<lparr>lrd := c\<rparr>)) ?fp) ''RecordLastSeen'' = g_consensusDLTS g"
    using recordsMatch_latestStateEntry[of L ?relay "g_consensusDLTS g" "lrd_index c ?fp"] h
    by simp_all
  show "processRelay L M relay gb = Inr gb"
    using processRelay_noop[OF gb(1) m(1), of M] m(2) gb(2) by simp
  show "\<exists>row. rows_of (journal gb) = rows_of (journal g) @ [row]"
    using row gb(3) by simp
qed

text \<open>
  Claim C6. \<^verbatim>\<open>recordsMatch\<close> is false for every record against the nil map that the
  cache yields for a fingerprint it does not hold, whatever the record's fields are,
  empty strings included: the serialized exit policy is never the empty string. So a
  relay that passes the filter, with the database in use and no cache entry for its
  fingerprint, takes the insert branch, and exactly one row is handed to the insert,
  with both timestamps set to the download timestamp.
\<close>

theorem absent_entry_is_inserted:
  "\<not> recordsMatch L relay Map.empty
   \<and> (allStringsInSetMatch (Filter_matchFlags (g_config g)) (Flags incoming)
        \<and> g_db g = Some d \<and> initialized d \<and> lrd d (Fingerprint incoming) = None
      \<longrightarrow> \<not> recordsMatch L (incoming\<lparr>Contact := strings_TrimSpace L (Contact incoming)\<rparr>)
              (lrd_index (lrd d) (Fingerprint incoming))
        \<and> processRelay L M incoming g
            = addNewTorRelayToDB L M (incoming\<lparr>Contact := strings_TrimSpace L (Contact incoming)\<rparr>) g
        \<and> (\<exists>row. rows_of (journal (final_globals (processRelay L M incoming g)))
                    = rows_of (journal g) @ [row]
                \<and> arg_nick row = Nickname incoming
                \<and> arg_RecordTimeInserted row = g_consensusDLTS g
                \<and> arg_RecordLastSeen row = g_consensusDLTS g))"
proof (intro conjI impI)
  show "\<not> recordsMatch L relay Map.empty" by (rule recordsMatch_nil_map)
next
  let ?relay = "incoming\<lparr>Contact := strings_TrimSpace L (Contact incoming)\<rparr>"
  assume h: "allStringsInSetMatch (Filter_matchFlags (g_config g)) (Flags incoming)
        \<and> g_db g = Some d \<and> initialized d \<and> lrd d (Fingerprint incoming) = None"
  have e: "lrd_index (lrd d) (Fingerprint incoming) = Map.empty" using h by (simp add: lrd_index_def)
  show nm: "\<not> recordsMatch L ?relay (lrd_index (lrd d) (Fingerprint incoming))"
    by (simp add: e recordsMatch_nil_map)
  show ins: "processRelay L M incoming g = addNewTorRelayToDB L M ?relay g"
    using processRelay_mismatch[of g incoming d L M] h nm by simp
  have db: "g_db g \<noteq> None" using h by simp
  show "\<exists>row. rows_of (journal (final_globals (processRelay L M incoming g)))
                    = rows_of (journal g) @ [row]
                \<and> arg_nick row = Nickname incoming
                \<and> arg_RecordTimeInserted row = g_consensusDLTS g
                \<and> arg_RecordLastSeen row = g_consensusDLTS g"
    using addNewTorRelayToDB_row[OF db, of L M ?relay] ins by auto
qed

text \<open>
  Claim C10. \<^verbatim>\<open>addNewTorRelayToDB\<close> hands exactly one row to the insert. Its nickname,
  \<^verbatim>\<open>Last_changed_address_or_port\<close> and \<^verbatim>\<open>First_seen\<close> are the relay's own,
  \<^verbatim>\<open>RecordTimeInserted\<close> and \<^verbatim>\<open>RecordLastSeen\<close> are the download timestamp, and the
  serialized blob is that of the struct after \<^verbatim>\<open>cleanupRelayStruct\<close>, which has
  emptied the fourteen fields it lists and left the thirty-two others as they were.
\<close>

theorem insert_keeps_original_values:
  assumes "g_db g = Some d"
  shows "(\<exists>row. rows_of (journal (final_globals (addNewTorRelayToDB L M relay g)))
             = rows_of (journal g) @ [row]
          \<and> arg_nick row = Nickname relay
          \<and> arg_lastChanged row = Last_changed_address_or_port relay
          \<and> arg_firstSeen row = First_seen relay
          \<and> arg_RecordTimeInserted row = g_consensusDLTS g
          \<and> arg_RecordLastSeen row = g_consensusDLTS g
          \<and> arg_jsRelay row = json_relay L (cleanupRelayStruct relay))
     \<and> cleanupRelayStruct relay
         = relay\<lparr>Nickname := [], Country := [], Country_name := [], Region_name := [],
             City_name := [], Platform := [], Version := [], Contact := [],
             Last_changed_address_or_port := [], First_seen := [], Fingerprint := [],
             Exit_policy := None, Exit_policy_summary := None, Exit_policy_v6_summary := None\<rparr>
     \<and> Nickname (cleanupRelayStruct relay) = []
     \<and> Last_changed_address_or_port (cleanupRelayStruct relay) = []
     \<and> First_seen (cleanupRelayStruct relay) = []
     \<and> Fingerprint (cleanupRelayStruct relay) = []
     \<and> Country (cleanupRelayStruct relay) = []
     \<and> Country_name (cleanupRelayStruct relay) = []
     \<and> Region_name (cleanupRelayStruct relay) = []
     \<and> City_name (cleanupRelayStruct relay) = []
     \<and> Platform (cleanupRelayStruct relay) = []
     \<and> Version (cleanupRelayStruct relay) = []
     \<and> Contact (cleanupRelayStruct relay) = []
     \<and> Exit_policy (cleanupRelayStruct relay) = None
     \<and> Exit_policy_summary (cleanupRelayStruct relay) = None
     \<and> Exit_policy_v6_summary (cleanupRelayStruct relay) = None
     \<and> Or_addresses (cleanupRelayStruct relay) = Or_addresses relay
     \<and> Exit_addresses (cleanupRelayStruct relay) = Exit_addresses relay
     \<and> Dir_address (cleanupRelayStruct relay) = Dir_address relay
     \<and> Last_seen (cleanupRelayStruct relay) = Last_seen relay
     \<and> Running (cleanupRelayStruct relay) = Running relay
     \<and> Hibernating (cleanupRelayStruct relay) = Hibernating relay
     \<and> Flags (cleanupRelayStruct relay) = Flags relay
     \<and> Latitude (cleanupRelayStruct relay) = Latitude relay
     \<and> Longitude (cleanupRelayStruct relay) = Longitude relay
     \<and> As (cleanupRelayStruct relay) = As relay
     \<and> As_number (cleanupRelayStruct relay) = As_number relay
     \<and> As_name (cleanupRelayStruct relay) = As_name relay
     \<and> Consensus_weight (cleanupRelayStruct relay) = Consensus_weight relay
     \<and> Host_name (cleanupRelayStruct relay) = Host_name relay
     \<and> Verified_host_names (cleanupRelayStruct relay) = Verified_host_names relay
     \<and> Unverified_host_names (cleanupRelayStruct relay) = Unverified_host_names relay
     \<and> Last_restarted (cleanupRelayStruct relay) = Last_restarted relay
     \<and> Bandwidth_rate (cleanupRelayStruct relay) = Bandwidth_rate relay
     \<and> Bandwidth_burst (cleanupRelayStruct relay) = Bandwidth_burst relay
     \<and> Observed_bandwidth (cleanupRelayStruct relay) = Observed_bandwidth relay
     \<and> Advertised_bandwidth (cleanupRelayStruct relay) = Advertised_bandwidth relay
     \<and> Recommended_version (cleanupRelayStruct relay) = Recommended_version relay
     \<and> Version_status (cleanupRelayStruct relay) = Version_status relay
     \<and> Effective_family (cleanupRelayStruct relay) = Effective_family relay
     \<and> Alleged_family (cleanupRelayStruct relay) = Alleged_family relay
     \<and> Indirect_family (cleanupRelayStruct relay) = Indirect_family relay
     \<and> Consensus_weight_fraction (cleanupRelayStruct relay) = Consensus_weight_fraction relay
     \<and> Guard_probability (cleanupRelayStruct relay) = Guard_probability relay
     \<and> Middle_probability (cleanupRelayStruct relay) = Middle_probability relay
     \<and> Exit_probability (cleanupRelayStruct relay) = Exit_probability relay
     \<and> Measured (cleanupRelayStruct relay) = Measured relay
     \<and> Unreachable_or_addresses (cleanupRelayStruct relay) = Unreachable_or_addresses relay"
proof -
  have db: "g_db g \<noteq> None" using assms by simp
  have row: "\<exists>row. rows_of (journal (final_globals (addNewTorRelayToDB L M relay g)))
             = rows_of (journal g) @ [row]
          \<and> arg_nick row = Nickname relay
          \<and> arg_lastChanged row = Last_changed_address_or_port relay
          \<and> arg_firstSeen row = First_seen relay
          \<and> arg_RecordTimeInserted row = g_consensusDLTS g
          \<and> arg_RecordLastSeen row = g_consensusDLTS g
          \<and> arg_jsRelay row = json_relay L (cleanupRelayStruct relay)"
    using addNewTorRelayToDB_row[OF db, of L M relay] by blast
  show ?thesis
    by (rule conjI[OF row]) (simp add: cleanupRelayStruct_def)
qed

subsection \<open>The scenario, run\<close>

lemma sample_initialized: "initialized sampleDBState"
  by (simp add: sampleDBState_def)

lemma sample_later:
  "go_index (lrd_index (lrd sampleDBState) (Fingerprint sampleRelay)) ''RecordLastSeen''
     < g_consensusDLTS (sampleGlobals ''20230102000000'')"
  by (simp add: sample_cached) (simp add: sampleGlobals_def sampleEntry_def go_index_def)

lemma sample_match_trimmed:
  "recordsMatch sampleLib
      (sampleRelay\<lparr>Contact := strings_TrimSpace sampleLib (Contact sampleRelay)\<rparr>)
      (lrd_index (lrd sampleDBState) (Fingerprint sampleRelay))"
  by (simp only: sample_trim sample_cached sample_match)

lemma sample_refresh_run:
  "processRelay sampleLib sampleDB sampleRelay (sampleGlobals ''20230102000000'')
     = Inr ((sampleGlobals ''20230102000000'')\<lparr>journal :=
         [UpdateIfNeededRelayAddressRLS ''Or'' ''7'' ''20230102000000'' ''10.0.0.1:9001'',
          UpdateTorRelayRLS ''1'' ''20230102000000'']\<rparr>)"
proof -
  have a: "updateRelayAddressesIfNeeded sampleDB sampleRelay (sampleGlobals ''20230102000000'')
     = Inr ((sampleGlobals ''20230102000000'')\<lparr>journal :=
         [UpdateIfNeededRelayAddressRLS ''Or'' ''7'' ''20230102000000'' ''10.0.0.1:9001'']\<rparr>)"
    by (simp add: updateRelayAddressesIfNeeded_def call_updateIfNeededRelayAddressRLS_def
        invoke_proc_def invoke_def andThen_def elems_def sampleRelay_def zeroRelay_def
        sampleGlobals_def sampleDBState_def sampleDB_def Let_def lrd_index_def go_index_def
        sampleEntry_def)
  have b: "call_updateTorRelayRLS sampleDB (Fingerprint sampleRelay)
       ((sampleGlobals ''20230102000000'')\<lparr>journal :=
         [UpdateIfNeededRelayAddressRLS ''Or'' ''7'' ''20230102000000'' ''10.0.0.1:9001'']\<rparr>)
     = Inr ((sampleGlobals ''20230102000000'')\<lparr>journal :=
         [UpdateIfNeededRelayAddressRLS ''Or'' ''7'' ''20230102000000'' ''10.0.0.1:9001'',
          UpdateTorRelayRLS ''1'' ''20230102000000'']\<rparr>)"
    by (simp add: call_updateTorRelayRLS_def invoke_proc_def invoke_def andThen_def
        sampleRelay_def sampleGlobals_def sampleDBState_def sampleDB_def Let_def lrd_index_def
        go_index_def sampleEntry_def)
  have later: "g_consensusDLTS (sampleGlobals ''20230102000000'')
       \<noteq> go_index (lrd_index (lrd sampleDBState) (Fingerprint sampleRelay)) ''RecordLastSeen''"
    "\<not> g_consensusDLTS (sampleGlobals ''20230102000000'')
       < go_index (lrd_index (lrd sampleDBState) (Fingerprint sampleRelay)) ''RecordLastSeen''"
    using sample_later by auto
  show ?thesis
    using processRelay_match[where M = sampleDB and g = "sampleGlobals ''20230102000000''",
        OF sample_filter sample_db sample_initialized sample_match_trimmed] later a b
    by (simp add: sample_trim andThen_def)
qed

theorem freshness_only_update_witness:
  "go_index (lrd_index (lrd sampleDBState) (Fingerprint sampleRelay)) ''RecordLastSeen''
     < g_consensusDLTS (sampleGlobals ''20230102000000'')
   \<and> (\<exists>g2. processRelay sampleLib sampleDB sampleRelay (sampleGlobals ''20230102000000'') = Inr g2
        \<and> journal g2 =
            [UpdateIfNeededRelayAddressRLS ''Or'' ''7'' ''20230102000000'' ''10.0.0.1:9001'',
             UpdateTorRelayRLS ''1'' ''20230102000000'']
        \<and> rows_of (journal g2) = rows_of (journal (sampleGlobals ''20230102000000'')))"
proof -
  from freshness_only_update[where M = sampleDB, OF sample_filter sample_db sample_initialized
      sample_match_trimmed sample_later]
  obtain g2 where g2: "processRelay sampleLib sampleDB sampleRelay (sampleGlobals ''20230102000000'')
      = Inr g2" "rows_of (journal g2) = rows_of (journal (sampleGlobals ''20230102000000''))"
    by blast
  have "journal g2 =
            [UpdateIfNeededRelayAddressRLS ''Or'' ''7'' ''20230102000000'' ''10.0.0.1:9001'',
             UpdateTorRelayRLS ''1'' ''20230102000000'']"
    using g2(1) sample_refresh_run by auto
  then show ?thesis
    using sample_later g2 by blast
qed


lemma sample_same:
  "g_consensusDLTS (sampleGlobals ''20230101000000'')
     = go_index (lrd_index (lrd sampleDBState) (Fingerprint sampleRelay)) ''RecordLastSeen''"
  by (simp add: sample_cached) (simp add: sampleGlobals_def sampleEntry_def go_index_def)

lemma sampleEmpty_db:
  "g_db (sampleGlobalsEmpty dlts) = Some \<lparr>initialized = True, lrd = Map.empty, internals = ()\<rparr>"
  by (simp add: sampleGlobalsEmpty_def)

lemma sampleEmpty_filter:
  "allStringsInSetMatch (Filter_matchFlags (g_config (sampleGlobalsEmpty dlts))) fl"
  by (simp add: sampleGlobalsEmpty_def sampleConfig_def allStringsInSetMatch_def)

lemma addNewRelayAddresses_returns:
  "g_db g \<noteq> None \<Longrightarrow> \<exists>g'. addNewRelayAddresses M lastID fpid ors exs di g = Inr g'"
  using addNewRelayAddresses_rows by blast

lemma sample_Exec: "fst (stmtAddTorRelays_Exec sampleDB row d) = Inr 1"
  by (simp add: sampleDB_def)

lemma sample_insert_returns:
  "\<exists>g1. addNewTorRelayToDB sampleLib sampleDB r (sampleGlobalsEmpty dlts) = Inr g1"
  by (simp add: addNewTorRelayToDB_def call_value2id_def invoke_Some andThen_def Let_def
      case_prod_beta sampleEmpty_db sample_Exec addNewRelayAddresses_returns)

theorem same_snapshot_idempotent_witness:
  "processRelay sampleLib sampleDB sampleRelay (sampleGlobals ''20230101000000'')
     = Inr (sampleGlobals ''20230101000000'')
   \<and> (\<exists>g1 d1. processRelay sampleLib sampleDB sampleRelay (sampleGlobalsEmpty ''20230101000000'')
          = Inr g1
        \<and> g_db g1 = Some d1
        \<and> processRelay sampleLib sampleDB sampleRelay
            (g1\<lparr>g_db := Some (d1\<lparr>lrd := [''AAAA'' \<mapsto>
               latestStateEntry sampleLib sampleRelay ''20230101000000'']\<rparr>)\<rparr>)
          = Inr (g1\<lparr>g_db := Some (d1\<lparr>lrd := [''AAAA'' \<mapsto>
               latestStateEntry sampleLib sampleRelay ''20230101000000'']\<rparr>)\<rparr>)
        \<and> length (rows_of (journal (g1\<lparr>g_db := Some (d1\<lparr>lrd := [''AAAA'' \<mapsto>
               latestStateEntry sampleLib sampleRelay ''20230101000000'']\<rparr>)\<rparr>))) = 1)"
proof -
  let ?g = "sampleGlobalsEmpty ''20230101000000''"
  let ?d = "\<lparr>initialized = True, lrd = Map.empty, internals = ()\<rparr> :: unit DB"
  let ?c = "[''AAAA'' \<mapsto> latestStateEntry sampleLib sampleRelay ''20230101000000'']"
  have first: "processRelay sampleLib sampleDB sampleRelay (sampleGlobals ''20230101000000'')
     = Inr (sampleGlobals ''20230101000000'')"
    using same_snapshot_idempotent[where M = sampleDB and L = sampleLib and relay = sampleRelay,
        OF sample_db] sample_match_trimmed sample_same
    by blast
  have nm: "\<not> recordsMatch sampleLib
      (sampleRelay\<lparr>Contact := strings_TrimSpace sampleLib (Contact sampleRelay)\<rparr>)
      (lrd_index (lrd ?d) (Fingerprint sampleRelay))"
    by (simp add: lrd_index_def recordsMatch_nil_map)
  have "processRelay sampleLib sampleDB sampleRelay ?g
      = addNewTorRelayToDB sampleLib sampleDB sampleRelay ?g"
    using processRelay_mismatch[OF sampleEmpty_filter sampleEmpty_db _ nm, of sampleDB]
    by (simp add: sample_trim)
  then obtain g1 where g1: "processRelay sampleLib sampleDB sampleRelay ?g = Inr g1"
    using sample_insert_returns[of sampleRelay "''20230101000000''"] by auto
  have "g_db (final_globals (processRelay sampleLib sampleDB sampleRelay ?g)) \<noteq> None"
    using addNewTorRelayToDB_frame[of ?g sampleLib sampleDB sampleRelay]
      \<open>processRelay sampleLib sampleDB sampleRelay ?g
        = addNewTorRelayToDB sampleLib sampleDB sampleRelay ?g\<close>
    by (simp add: sampleEmpty_db)
  then obtain d1 where d1: "g_db g1 = Some d1"
    using g1 by (auto simp: final_globals_def)
  have le: "latestStateEntry sampleLib
       (sampleRelay\<lparr>Contact := strings_TrimSpace sampleLib (Contact sampleRelay)\<rparr>)
       (g_consensusDLTS ?g) \<subseteq>\<^sub>m lrd_index ?c (Fingerprint sampleRelay)"
    by (simp only: sample_trim) (simp add: lrd_index_def sampleRelay_def sampleGlobalsEmpty_def)
  have "processRelay sampleLib sampleDB sampleRelay (g1\<lparr>g_db := Some (d1\<lparr>lrd := ?c\<rparr>)\<rparr>)
          = Inr (g1\<lparr>g_db := Some (d1\<lparr>lrd := ?c\<rparr>)\<rparr>)
      \<and> (\<exists>row. rows_of (journal (g1\<lparr>g_db := Some (d1\<lparr>lrd := ?c\<rparr>)\<rparr>))
            = rows_of (journal ?g) @ [row])"
    using same_snapshot_idempotent[where M = sampleDB and L = sampleLib and relay = sampleRelay
        and ga = g1 and da = d1 and c = ?c and gb = "g1\<lparr>g_db := Some (d1\<lparr>lrd := ?c\<rparr>)\<rparr>",
        OF sampleEmpty_db]
      sampleEmpty_filter g1 d1 le
    by simp
  then show ?thesis
    using first g1 d1 by (auto simp: sampleGlobalsEmpty_def)
qed

theorem absent_entry_is_inserted_witness:
  "\<not> recordsMatch sampleLib (zeroRelay :: unit TorRelayDetails) Map.empty
   \<and> processRelay sampleLib sampleDB zeroRelay (sampleGlobalsEmpty ''20230101000000'')
       = addNewTorRelayToDB sampleLib sampleDB zeroRelay (sampleGlobalsEmpty ''20230101000000'')
   \<and> (\<exists>row. rows_of (journal (final_globals
          (processRelay sampleLib sampleDB zeroRelay (sampleGlobalsEmpty ''20230101000000''))))
        = [row] \<and> arg_RecordLastSeen row = ''20230101000000'')"
proof -
  have z: "(zeroRelay :: unit TorRelayDetails)\<lparr>Contact := strings_TrimSpace sampleLib (Contact zeroRelay)\<rparr>
      = zeroRelay"
    by (simp add: sampleLib_def zeroRelay_def)
  have e: "rows_of (journal (sampleGlobalsEmpty ''20230101000000'')) = []"
    "g_consensusDLTS (sampleGlobalsEmpty ''20230101000000'') = ''20230101000000''"
    by (simp_all add: sampleGlobalsEmpty_def)
  show ?thesis
    using absent_entry_is_inserted[where L = sampleLib and M = sampleDB
        and relay = "zeroRelay :: unit TorRelayDetails" and incoming = "zeroRelay :: unit TorRelayDetails"
        and g = "sampleGlobalsEmpty ''20230101000000''"
        and d = "\<lparr>initialized = True, lrd = Map.empty, internals = ()\<rparr>"]
      sampleEmpty_filter sampleEmpty_db
    by (auto simp: z e)
qed

theorem insert_keeps_original_values_witness:
  "(\<exists>row. rows_of (journal (final_globals
       (addNewTorRelayToDB sampleLib sampleDB sampleRelay (sampleGlobalsEmpty ''20230101000000''))))
       = [row]
     \<and> arg_nick row = ''n1'' \<and> arg_RecordTimeInserted row = ''20230101000000''
     \<and> arg_RecordLastSeen row = ''20230101000000'')
   \<and> Nickname (cleanupRelayStruct sampleRelay) = []
   \<and> Or_addresses (cleanupRelayStruct sampleRelay) = Some [''10.0.0.1:9001'']"
proof -
  have e: "rows_of (journal (sampleGlobalsEmpty ''20230101000000'')) = []"
    "g_consensusDLTS (sampleGlobalsEmpty ''20230101000000'') = ''20230101000000''"
    "Nickname sampleRelay = ''n1''" "Or_addresses sampleRelay = Some [''10.0.0.1:9001'']"
    by (simp_all add: sampleGlobalsEmpty_def sampleRelay_def)
  show ?thesis
    using insert_keeps_original_values[OF sampleEmpty_db, of sampleLib sampleDB sampleRelay
        "''20230101000000''"]
    by (simp add: e) blast
qed

section \<open>The batch delta extractor\<close>















section \<open>The download timestamp\<close>

lemma matchFormats_filter:
  "matchFormats E ts formats =
     (case filter (\<lambda>f. time_Parse E f ts \<noteq> None) formats of
        [] \<Rightarrow> None | f # rest \<Rightarrow> time_Parse E f ts)"
  by (induction formats) (auto split: option.splits)

lemma filter_product_Cons:
  "filter (\<lambda>(ts, f). time_Parse E f ts \<noteq> None) (List.product (ts # tss) formats)
     = map (Pair ts) (filter (\<lambda>f. time_Parse E f ts \<noteq> None) formats)
       @ filter (\<lambda>(ts, f). time_Parse E f ts \<noteq> None) (List.product tss formats)"
  by (simp add: filter_map comp_def)

lemma first_parse_Cons:
  "first_parse E (ts # tss) formats =
     (case matchFormats E ts formats of Some t \<Rightarrow> Some t | None \<Rightarrow> first_parse E tss formats)"
proof (cases "filter (\<lambda>f. time_Parse E f ts \<noteq> None) formats")
  case Nil
  then have "matchFormats E ts formats = None" by (simp add: matchFormats_filter)
  moreover have "first_parse E (ts # tss) formats = first_parse E tss formats"
    unfolding first_parse_def filter_product_Cons Nil by simp
  ultimately show ?thesis by simp
next
  case (Cons f rest)
  then have "f \<in> set (filter (\<lambda>f. time_Parse E f ts \<noteq> None) formats)" by simp
  then obtain t where t: "time_Parse E f ts = Some t" by auto
  then have "matchFormats E ts formats = Some t" using Cons by (simp add: matchFormats_filter)
  moreover have "first_parse E (ts # tss) formats = Some t"
    unfolding first_parse_def filter_product_Cons Cons using t by simp
  ultimately show ?thesis by simp
qed

lemma matchTimestampToFormats_first:
  "matchTimestampToFormats E ts_matches formats = first_parse E ts_matches formats"
proof (induction ts_matches)
  case Nil
  then show ?case by (simp add: first_parse_def)
next
  case (Cons ts tss)
  then show ?case by (simp add: first_parse_Cons split: option.splits)
qed

lemma first_parse_None:
  assumes "\<forall>ts \<in> set ts_matches. \<forall>f \<in> set formats. time_Parse E f ts = None"
  shows "first_parse E ts_matches formats = None"
proof -
  have "filter (\<lambda>(ts, f). time_Parse E f ts \<noteq> None) (List.product ts_matches formats) = []"
    using assms by (auto simp: filter_empty_conv)
  then show ?thesis by (simp add: first_parse_def)
qed

text \<open>
  Claim C8. \<^verbatim>\<open>matchTimestampToFormats\<close> returns the parse of the first pair of candidate
  and format that parses, candidates in their order and, for each, the formats in
  theirs. When an override or the extraction from the file name is in effect and no
  candidate parses under any format of the list, \<^verbatim>\<open>getConsensusDLTimestamp\<close> ends the
  run with \<^verbatim>\<open>log.Fatalln\<close> and yields no timestamp, and the import loop stops at that
  file with the globals untouched. When the expression of the extraction does not
  compile, the run ends with that panic.
\<close>

theorem unparsable_timestamp_is_fatal:
  "matchTimestampToFormats E ts_matches formats = first_parse E ts_matches formats
   \<and> ((Tor_ExtractDLTfromFilename cfg \<or> Tor_ConsensusDLT cfg \<noteq> [])
        \<and> ts_matches_of E cfg (if filename = [] then Tor_Filename cfg else filename) = Inr cands
        \<and> (\<forall>ts \<in> set cands. \<forall>f \<in> set (getTimeFormats cfg). time_Parse E f ts = None)
      \<longrightarrow> getConsensusDLTimestamp E cfg filename = Inl (Fatal ''Unable to parse timestamp.'')
        \<and> (cfg = g_config g \<longrightarrow>
             import_loop E L M num (filename # filenames) previous g
               = Inl (Fatal ''Unable to parse timestamp.'', g)))
   \<and> ((Tor_ExtractDLTfromFilename cfg \<or> Tor_ConsensusDLT cfg \<noteq> [])
        \<and> ts_matches_of E cfg (if filename = [] then Tor_Filename cfg else filename) = Inl e
      \<longrightarrow> getConsensusDLTimestamp E cfg filename = Inl e)"
proof (intro conjI impI)
  show "matchTimestampToFormats E ts_matches formats = first_parse E ts_matches formats"
    by (rule matchTimestampToFormats_first)
next
  assume h: "(Tor_ExtractDLTfromFilename cfg \<or> Tor_ConsensusDLT cfg \<noteq> [])
        \<and> ts_matches_of E cfg (if filename = [] then Tor_Filename cfg else filename) = Inr cands
        \<and> (\<forall>ts \<in> set cands. \<forall>f \<in> set (getTimeFormats cfg). time_Parse E f ts = None)"
  then have "matchTimestampToFormats E cands (getTimeFormats cfg) = None"
    by (simp add: matchTimestampToFormats_first first_parse_None)
  then show fatal: "getConsensusDLTimestamp E cfg filename = Inl (Fatal ''Unable to parse timestamp.'')"
    using h by (auto simp: getConsensusDLTimestamp_def Let_def andThen_def)
  assume "cfg = g_config g"
  then show "import_loop E L M num (filename # filenames) previous g
               = Inl (Fatal ''Unable to parse timestamp.'', g)"
    using fatal by (simp add: lift_def andThen_def)
next
  assume "(Tor_ExtractDLTfromFilename cfg \<or> Tor_ConsensusDLT cfg \<noteq> [])
        \<and> ts_matches_of E cfg (if filename = [] then Tor_Filename cfg else filename) = Inl e"
  then show "getConsensusDLTimestamp E cfg filename = Inl e"
    by (auto simp: getConsensusDLTimestamp_def Let_def andThen_def)
qed

theorem unparsable_timestamp_is_fatal_witness:
  "Tor_ConsensusDLT (sampleConfig\<lparr>Tor_ConsensusDLT := ''yesterday''\<rparr>) \<noteq> []
   \<and> ts_matches_of sampleOutside (sampleConfig\<lparr>Tor_ConsensusDLT := ''yesterday''\<rparr>) ''relays.json''
       = Inr [''yesterday'']
   \<and> getConsensusDLTimestamp sampleOutside (sampleConfig\<lparr>Tor_ConsensusDLT := ''yesterday''\<rparr>)
        ''relays.json'' = Inl (Fatal ''Unable to parse timestamp.'')
   \<and> getConsensusDLTimestamp sampleOutside
        (sampleConfig\<lparr>Tor_ConsensusDLT := ''20230101000000''\<rparr>) ''relays.json''
       = Inr ''20230101000000''"
proof -
  let ?cfg = "sampleConfig\<lparr>Tor_ConsensusDLT := ''yesterday''\<rparr>"
  have a: "Tor_ExtractDLTfromFilename ?cfg \<or> Tor_ConsensusDLT ?cfg \<noteq> []"
    by (simp add: sampleConfig_def)
  have b: "ts_matches_of sampleOutside ?cfg (if ''relays.json'' = [] then Tor_Filename ?cfg else ''relays.json'')
      = Inr [''yesterday'']"
    by (simp add: ts_matches_of_def sampleConfig_def)
  have c: "\<forall>ts \<in> set [''yesterday'']. \<forall>f \<in> set (getTimeFormats ?cfg).
      time_Parse sampleOutside f ts = None"
    by (simp add: sampleOutside_def)
  have ok: "getConsensusDLTimestamp sampleOutside
        (sampleConfig\<lparr>Tor_ConsensusDLT := ''20230101000000''\<rparr>) ''relays.json''
       = Inr ''20230101000000''"
    by (simp add: getConsensusDLTimestamp_def ts_matches_of_def sampleConfig_def getTimeFormats_def
        sampleOutside_def andThen_def fmt_0d_def) code_simp
  show ?thesis
    using unparsable_timestamp_is_fatal[where E = sampleOutside and ts_matches = "[]"
        and formats = "[]" and cfg = ?cfg and filename = "''relays.json''"
        and cands = "[''yesterday'']" and g = "sampleGlobals []" and L = sampleLib
        and M = sampleDB and num = 0 and filenames = "[]" and previous = zeroResponse] a b c ok
    by simp
qed

section \<open>The cache refresh scheduler\<close>

lemma go_rem_zero:
  assumes "1 \<le> K"
  shows "(int num smod K = 0) = (num mod nat K = 0)"
proof -
  have "int num smod K = int num mod K"
    using assms by (simp add: smod_int_alt_def sgn_if)
  also have "\<dots> = int (num mod nat K)"
    using assms by (simp add: zmod_int)
  finally show ?thesis by simp
qed

lemma refreshCaches_schedule:
  assumes "1 \<le> DBServer_ReInitCaches (g_config g)"
  shows "refreshCaches M num g =
           (if num mod nat (DBServer_ReInitCaches (g_config g)) = 0 then initializeCaches M g
            else invoke_proc (InitializeLatestRelayDataCache (g_consensusDLTS g))
                   (initializeLatestRelayDataCache M (g_consensusDLTS g)) g)
       \<and> (DBServer_ReInitCaches (g_config g) = 1 \<longrightarrow> refreshCaches M num g = initializeCaches M g)"
  using assms go_rem_zero[OF assms, of num]
  by (auto simp: refreshCaches_def)

subsection \<open>The schedule over a run\<close>

lemma cache_calls_forget_ids: "cache_calls (map forget_ids j) = cache_calls j"
proof (induction j)
  case Nil
  then show ?case by simp
next
  case (Cons c j)
  then show ?case by (cases c) simp_all
qed

lemma cache_calls_sync [simp]:
  "cache_calls (map (UpdateIfNeededRelayAddressRLS role fpid dlts) addrs) = []"
  by (induction addrs) simp_all

lemma initializeCaches_frame:
  assumes "initializeCaches M g = Inr g'"
  shows "g_config g' = g_config g \<and> g_consensusDLTS g' = g_consensusDLTS g
     \<and> cache_calls (journal g') = cache_calls (journal g)
        @ (if DBServer_Enabled (g_config g) then
             [InitCaches, InitCountryNameCache, InitializeLatestRelayDataCache (g_consensusDLTS g)]
           else [])"
proof (cases "DBServer_Enabled (g_config g)")
  case False
  then show ?thesis using assms by (simp add: initializeCaches_def)
next
  case True
  show ?thesis
  proof (cases "g_db g")
    case None
    then show ?thesis
      using assms True by (simp add: initializeCaches_def invoke_proc_def invoke_def andThen_def)
  next
    case (Some d)
    then show ?thesis
      using assms True by (auto simp: initializeCaches_def invoke_proc_Some andThen_def)
  qed
qed

lemma refreshCaches_frame:
  assumes "1 \<le> DBServer_ReInitCaches (g_config g)" and "refreshCaches M num g = Inr g'"
  shows "g_config g' = g_config g \<and> g_consensusDLTS g' = g_consensusDLTS g
     \<and> cache_calls (journal g') = cache_calls (journal g)
        @ scheduled_cache_calls (g_config g) num (g_consensusDLTS g)"
proof (cases "num mod nat (DBServer_ReInitCaches (g_config g)) = 0")
  case True
  then have "initializeCaches M g = Inr g'"
    using refreshCaches_schedule[OF assms(1), of M num] assms(2) by simp
  from initializeCaches_frame[OF this] show ?thesis
    using True by (simp add: scheduled_cache_calls_def)
next
  case False
  then have run: "invoke_proc (InitializeLatestRelayDataCache (g_consensusDLTS g))
      (initializeLatestRelayDataCache M (g_consensusDLTS g)) g = Inr g'"
    using refreshCaches_schedule[OF assms(1), of M num] assms(2) by simp
  show ?thesis
  proof (cases "g_db g")
    case None
    then show ?thesis using run by (simp add: invoke_proc_def invoke_def andThen_def)
  next
    case (Some d)
    then show ?thesis
      using run False by (auto simp: invoke_proc_Some scheduled_cache_calls_def)
  qed
qed

lemma logDataImport_frame:
  assumes "logDataImport M tor_response g = Inr g'"
  shows "g_config g' = g_config g \<and> cache_calls (journal g') = cache_calls (journal g)"
  using assms
  by (auto simp: logDataImport_def invoke_proc_Some split: option.splits if_splits)

lemma call_updateTorRelayRLS_frame:
  assumes "call_updateTorRelayRLS M fp g = Inr g'"
  shows "g_config g' = g_config g \<and> cache_calls (journal g') = cache_calls (journal g)"
  using assms
  by (auto simp: call_updateTorRelayRLS_def invoke_proc_Some Let_def split: option.splits)

lemma processRelay_frame:
  assumes "processRelay L M relay g = Inr g'"
  shows "g_config g' = g_config g \<and> cache_calls (journal g') = cache_calls (journal g)"
proof (cases "allStringsInSetMatch (Filter_matchFlags (g_config g)) (Flags relay)
    \<and> (\<exists>d. g_db g = Some d \<and> initialized d)")
  case False
  then have "processRelay L M relay g = Inr g"
    by (auto simp: processRelay_def split: option.splits)
  then show ?thesis using assms by simp
next
  case True
  then obtain d where d: "g_db g = Some d" "initialized d"
    and f: "allStringsInSetMatch (Filter_matchFlags (g_config g)) (Flags relay)" by blast
  have db: "g_db g \<noteq> None" using d by simp
  let ?relay = "relay\<lparr>Contact := strings_TrimSpace L (Contact relay)\<rparr>"
  show ?thesis
  proof (cases "recordsMatch L ?relay (lrd_index (lrd d) (Fingerprint relay))")
    case False
    then have "addNewTorRelayToDB L M ?relay g = Inr g'"
      using processRelay_mismatch[OF f d False, of M] assms by simp
    then have "final_globals (addNewTorRelayToDB L M ?relay g) = g'"
      by (simp add: final_globals_def)
    then show ?thesis using addNewTorRelayToDB_frame[OF db, of L M ?relay] by simp
  next
    case True
    show ?thesis
    proof (cases "g_consensusDLTS g \<le> go_index (lrd_index (lrd d) (Fingerprint relay)) ''RecordLastSeen''")
      case le: True
      then have "processRelay L M relay g = Inr g"
        using processRelay_noop[OF d(1) True, of M] by simp
      then show ?thesis using assms by simp
    next
      case False
      then have run: "andThen (updateRelayAddressesIfNeeded M ?relay g)
          (call_updateTorRelayRLS M (Fingerprint relay)) = Inr g'"
        using processRelay_match[OF f d True, of M] assms by auto
      from updateRelayAddressesIfNeeded_journal[OF db, of M ?relay]
      obtain g1 where g1: "updateRelayAddressesIfNeeded M ?relay g = Inr g1"
        "map forget_ids (journal g1) = map forget_ids (journal g)
           @ map (UpdateIfNeededRelayAddressRLS ''Or'' [] (g_consensusDLTS g))
               (elems (Or_addresses ?relay))
           @ map (UpdateIfNeededRelayAddressRLS ''Ex'' [] (g_consensusDLTS g))
               (elems (Exit_addresses ?relay))
           @ (if Dir_address ?relay \<noteq> [] then
                [UpdateIfNeededRelayAddressRLS ''Di'' [] (g_consensusDLTS g) (Dir_address ?relay)]
              else [])"
        "g_config g1 = g_config g"
        by blast
      have "cache_calls (journal g1) = cache_calls (map forget_ids (journal g1))"
        by (simp add: cache_calls_forget_ids)
      also have "\<dots> = cache_calls (journal g)"
        unfolding g1(2) by (simp add: cache_calls_forget_ids)
      finally have c1: "cache_calls (journal g1) = cache_calls (journal g)" .
      have "call_updateTorRelayRLS M (Fingerprint relay) g1 = Inr g'"
        using run g1(1) by (simp add: andThen_def)
      from call_updateTorRelayRLS_frame[OF this] show ?thesis using c1 g1(3) by simp
    qed
  qed
qed

lemma processTorResponse_frame:
  assumes "processTorResponse L M relays g = Inr g'"
  shows "g_config g' = g_config g \<and> cache_calls (journal g') = cache_calls (journal g)"
  using assms unfolding processTorResponse_def
proof (induction relays arbitrary: g)
  case Nil
  then show ?case by simp
next
  case (Cons relay relays)
  then obtain g1 where g1: "processRelay L M relay g = Inr g1"
    "forEach relays (processRelay L M) g1 = Inr g'"
    by (auto simp: andThen_def split: sum.splits)
  from Cons.IH[OF g1(2)] processRelay_frame[OF g1(1)] show ?case by simp
qed

lemma import_loop_schedule:
  assumes "1 \<le> DBServer_ReInitCaches (g_config g)"
    and "import_loop E L M num filenames previous g = Inr g'"
  shows "cache_calls (journal g') = cache_calls (journal g)
     @ concat (map (\<lambda>(i, fn). scheduled_cache_calls (g_config g) i (dlts_of E (g_config g) fn))
         (zip [num..<num + length filenames] filenames))"
  using assms
proof (induction filenames arbitrary: num previous g)
  case Nil
  then show ?case by simp
next
  case (Cons fn filenames)
  obtain dlts where dlts: "getConsensusDLTimestamp E (g_config g) fn = Inr dlts"
    using Cons.prems(2) by (cases "getConsensusDLTimestamp E (g_config g) fn")
      (auto simp: lift_def andThen_def)
  let ?g0 = "g\<lparr>g_consensusDLTS := dlts\<rparr>"
  obtain g1 where g1: "refreshCaches M num ?g0 = Inr g1"
    using Cons.prems(2) dlts by (cases "refreshCaches M num ?g0") (auto simp: lift_def andThen_def)
  obtain tr where tr: "getConsensus E False fn = Inr tr"
    using Cons.prems(2) dlts g1 by (cases "getConsensus E False fn") (auto simp: lift_def andThen_def)
  let ?tr = "if num \<noteq> 0 then tr\<lparr>Relays := extractNewAndUpdatedRelays (Relays previous) (Relays tr)\<rparr>
             else tr"
  obtain g2 where g2: "logDataImport M ?tr g1 = Inr g2"
    using Cons.prems(2) dlts g1 tr
    by (cases "logDataImport M ?tr g1") (auto simp: lift_def andThen_def Let_def)
  obtain g3 where g3: "processTorResponse L M (Relays ?tr) g2 = Inr g3"
    using Cons.prems(2) dlts g1 tr g2
    by (cases "processTorResponse L M (Relays ?tr) g2") (auto simp: lift_def andThen_def Let_def)
  have rest: "import_loop E L M (num + 1) filenames tr g3 = Inr g'"
    using Cons.prems(2) dlts g1 tr g2 g3 by (auto simp: lift_def andThen_def Let_def)
  have k0: "1 \<le> DBServer_ReInitCaches (g_config ?g0)" using Cons.prems(1) by simp
  have f1: "g_config g1 = g_config g"
    "cache_calls (journal g1) = cache_calls (journal g) @ scheduled_cache_calls (g_config g) num dlts"
    using refreshCaches_frame[OF k0 g1] by simp_all
  have f2: "g_config g2 = g_config g" "cache_calls (journal g2) = cache_calls (journal g1)"
    using logDataImport_frame[OF g2] f1 by simp_all
  have f3: "g_config g3 = g_config g" "cache_calls (journal g3) = cache_calls (journal g2)"
    using processTorResponse_frame[OF g3] f2 by simp_all
  have k3: "1 \<le> DBServer_ReInitCaches (g_config g3)" using Cons.prems(1) f3 by simp
  have d: "dlts_of E (g_config g) fn = dlts" using dlts by (simp add: dlts_of_def)
  have up: "[num..<num + length (fn # filenames)] = num # [num + 1..<num + 1 + length filenames]"
    by (simp add: upt_rec)
  show ?case
    using Cons.IH[OF k3 rest] f1 f2 f3 d unfolding up by simp
qed

text \<open>
  Claim C7. With a configured interval \<open>K \<ge> 1\<close>, the scheduler at file index \<open>i\<close> runs
  the full cache initialization exactly when \<open>i mod K = 0\<close>, and otherwise only reloads
  the latest relay data; with \<open>K = 1\<close> it is the full initialization at every index.
  Over a whole run of the import loop that returns, the cache calls in the journal are
  those due at the indices 0, 1, 2, ... of the files, in order, each with the
  download timestamp of its file: the rest of the loop calls no cache method.
\<close>

theorem cache_refresh_schedule:
  assumes "1 \<le> DBServer_ReInitCaches (g_config g)"
  shows "refreshCaches M num g =
           (if num mod nat (DBServer_ReInitCaches (g_config g)) = 0 then initializeCaches M g
            else invoke_proc (InitializeLatestRelayDataCache (g_consensusDLTS g))
                   (initializeLatestRelayDataCache M (g_consensusDLTS g)) g)
     \<and> (DBServer_ReInitCaches (g_config g) = 1 \<longrightarrow> refreshCaches M num g = initializeCaches M g)
     \<and> (import_loop E L M 0 filenames previous g = Inr g' \<longrightarrow>
          cache_calls (journal g') = cache_calls (journal g)
            @ concat (map (\<lambda>(i, fn). scheduled_cache_calls (g_config g) i (dlts_of E (g_config g) fn))
                (zip [0..<length filenames] filenames)))"
proof (intro conjI impI)
  show "refreshCaches M num g =
           (if num mod nat (DBServer_ReInitCaches (g_config g)) = 0 then initializeCaches M g
            else invoke_proc (InitializeLatestRelayDataCache (g_consensusDLTS g))
                   (initializeLatestRelayDataCache M (g_consensusDLTS g)) g)"
    using refreshCaches_schedule[OF assms] by simp
next
  assume "DBServer_ReInitCaches (g_config g) = 1"
  then show "refreshCaches M num g = initializeCaches M g"
    using refreshCaches_schedule[OF assms, of M num] by simp
next
  assume "import_loop E L M 0 filenames previous g = Inr g'"
  from import_loop_schedule[OF assms this] show "cache_calls (journal g') = cache_calls (journal g)
            @ concat (map (\<lambda>(i, fn). scheduled_cache_calls (g_config g) i (dlts_of E (g_config g) fn))
                (zip [0..<length filenames] filenames))"
    by simp
qed

lemma sample_now:
  "getConsensusDLTimestamp sampleOutsideEmpty sampleConfig fn = Inr ''20230105000000''"
  by (simp add: getConsensusDLTimestamp_def sampleConfig_def sampleOutsideEmpty_def
      sampleOutside_def andThen_def fmt_0d_def) code_simp

lemma sample_loop_run:
  "import_loop sampleOutsideEmpty sampleLib sampleDB 0 [''a.json'', ''b.json''] zeroResponse
     (sampleGlobals [])
   = Inr ((sampleGlobals ''20230105000000'')\<lparr>journal :=
       [InitCaches, InitCountryNameCache, InitializeLatestRelayDataCache ''20230105000000'',
        AddToTorQueries [] [] [] ''20230105000000'',
        InitializeLatestRelayDataCache ''20230105000000'',
        AddToTorQueries [] [] [] ''20230105000000'']\<rparr>)"
proof -
  have cfg: "g_config (sampleGlobals d) = sampleConfig"
    "DBServer_Enabled sampleConfig" "DBServer_ReInitCaches sampleConfig = 100" for d
    by (simp_all add: sampleGlobals_def sampleConfig_def)
  have db: "initialized sampleDBState"
    "initCaches sampleDB = (\<lambda>d. d)" "initCountryNameCache sampleDB = (\<lambda>d. d)"
    "initializeLatestRelayDataCache sampleDB = (\<lambda>dlts d. d)"
    "addToTorQueries sampleDB = (\<lambda>v rp bp dlts d. d)"
    by (simp_all add: sampleDBState_def sampleDB_def)
  have r: "(1::int) smod 100 = 1" by (simp add: smod_int_alt_def)
  have gc: "getConsensus sampleOutsideEmpty False fn = Inr zeroResponse" for fn
    by (simp add: sampleOutsideEmpty_def)
  have z: "Relays (zeroResponse :: unit TorResponse) = []"
    "Version_resp (zeroResponse :: unit TorResponse) = []"
    "Relays_published (zeroResponse :: unit TorResponse) = []"
    "Bridges_published (zeroResponse :: unit TorResponse) = []"
    by (simp_all add: zeroResponse_def)
  have "import_loop sampleOutsideEmpty sampleLib sampleDB 0 [''a.json'', ''b.json''] zeroResponse
     (sampleGlobals [])
    = Inr ((sampleGlobals [])\<lparr>g_consensusDLTS := ''20230105000000'',
        g_db := Some sampleDBState,
        journal :=
       [InitCaches, InitCountryNameCache, InitializeLatestRelayDataCache ''20230105000000'',
        AddToTorQueries [] [] [] ''20230105000000'',
        InitializeLatestRelayDataCache ''20230105000000'',
        AddToTorQueries [] [] [] ''20230105000000'']\<rparr>)"
    by (simp add: lift_def andThen_def sample_now gc r cfg db z sample_db refreshCaches_def
        initializeCaches_def invoke_proc_def invoke_def logDataImport_def
        processTorResponse_def extractNewAndUpdatedRelays_def)
       (simp add: sampleGlobals_def)
  then show ?thesis by (simp add: sampleGlobals_def)
qed

theorem cache_refresh_schedule_witness:
  "1 \<le> DBServer_ReInitCaches (g_config (sampleGlobals []))
   \<and> refreshCaches sampleDB 200 (sampleGlobals []) = initializeCaches sampleDB (sampleGlobals [])
   \<and> refreshCaches sampleDB 7 (sampleGlobals [])
       = invoke_proc (InitializeLatestRelayDataCache [])
           (initializeLatestRelayDataCache sampleDB []) (sampleGlobals [])
   \<and> (\<exists>g'. import_loop sampleOutsideEmpty sampleLib sampleDB 0 [''a.json'', ''b.json'']
               zeroResponse (sampleGlobals []) = Inr g'
         \<and> cache_calls (journal g') =
             [InitCaches, InitCountryNameCache, InitializeLatestRelayDataCache ''20230105000000'',
              InitializeLatestRelayDataCache ''20230105000000''])"
proof -
  have k: "1 \<le> DBServer_ReInitCaches (g_config (sampleGlobals []))"
    "DBServer_ReInitCaches (g_config (sampleGlobals [])) = 100"
    "g_consensusDLTS (sampleGlobals []) = []"
    by (simp_all add: sampleGlobals_def sampleConfig_def)
  have a: "refreshCaches sampleDB 200 (sampleGlobals []) = initializeCaches sampleDB (sampleGlobals [])"
    using cache_refresh_schedule[OF k(1), where M = sampleDB and num = 200
        and E = sampleOutsideEmpty and L = sampleLib and filenames = "[]" and previous = zeroResponse
        and g' = "sampleGlobals []"]
    by (simp add: k)
  have b: "refreshCaches sampleDB 7 (sampleGlobals [])
       = invoke_proc (InitializeLatestRelayDataCache [])
           (initializeLatestRelayDataCache sampleDB []) (sampleGlobals [])"
    using cache_refresh_schedule[OF k(1), where M = sampleDB and num = 7
        and E = sampleOutsideEmpty and L = sampleLib and filenames = "[]" and previous = zeroResponse
        and g' = "sampleGlobals []"]
    by (simp add: k)
  show ?thesis
    using k(1) a b sample_loop_run by simp
qed

end
